theory Spec2Isabelle
  imports Main "HOL-Library.Product_Lexorder"
begin

section \<open>Data model of \<open>bigquery_worker.py\<close>\<close>

text \<open>
  Column types of a pandas frame. The six named constructors are the keys of the dictionary
  literal in \<open>_extract_schema\<close>; \<open>DatetimeTZ tz\<close> is \<open>pd.DatetimeTZDtype(tz=tz)\<close>
  and \<open>OtherDtype n\<close> stands for every dtype that is none of these (bool, float32, category ...).
\<close>

datatype dtype =
    Object
  | Int32
  | Int64
  | Float64
  | Datetime64_ns
  | DatetimeTZ string
  | OtherDtype string

text \<open>\<open>bigquery.SchemaField(name, field_type)\<close>; the field type is a string in the client library.\<close>

datatype SchemaField = SchemaField (name: string) (field_type: string)

text \<open>
  Exceptions that the methods raise or let through. \<open>NoDataError\<close> is the error of that
  name in the specification's taxonomy; nothing in the worker raises it.
\<close>

datatype exc =
    NotFound
  | Conflict
  | KeyError_dtype dtype
  | KeyError_str string
  | TypeError
  | AttributeError
  | NoDataError
  | OtherError string

record table =
  table_id :: string
  schema :: "SchemaField list"

section \<open>Schema mapping\<close>

text \<open>The dictionary \<open>type_map\<close> built inside the loop of \<open>_extract_schema\<close> for one column name.\<close>

fun extract_schema_type_map :: "string \<Rightarrow> dtype \<Rightarrow> SchemaField option" where
  "extract_schema_type_map column_name Object = Some (SchemaField column_name ''STRING'')"
| "extract_schema_type_map column_name Int32 = Some (SchemaField column_name ''INTEGER'')"
| "extract_schema_type_map column_name Int64 = Some (SchemaField column_name ''INTEGER'')"
| "extract_schema_type_map column_name Float64 = Some (SchemaField column_name ''FLOAT'')"
| "extract_schema_type_map column_name Datetime64_ns = Some (SchemaField column_name ''DATE'')"
| "extract_schema_type_map column_name (DatetimeTZ tz) =
     (if tz = ''UTC'' then Some (SchemaField column_name ''DATE'') else None)"
| "extract_schema_type_map column_name (OtherDtype n) = None"

text \<open>
  \<open>_extract_schema\<close>: the argument is the list of items of \<open>dict(df.dtypes)\<close>. The subscript
  \<open>type_map[dtype]\<close> raises \<open>KeyError\<close> at the first column whose dtype is not a key.
\<close>

fun extract_schema :: "(string \<times> dtype) list \<Rightarrow> exc + SchemaField list" where
  "extract_schema [] = Inr []"
| "extract_schema ((column_name, dt) # rest) =
     (case extract_schema_type_map column_name dt of
        None \<Rightarrow> Inl (KeyError_dtype dt)
      | Some field \<Rightarrow>
          (case extract_schema rest of
             Inl e \<Rightarrow> Inl e
           | Inr schema' \<Rightarrow> Inr (field # schema')))"

text \<open>The dictionary \<open>type_map\<close> of \<open>_extract_dtypes\<close>.\<close>

definition extract_dtypes_type_map :: "string \<Rightarrow> dtype option" where
  "extract_dtypes_type_map ft =
     (if ft = ''STRING'' then Some Object
      else if ft = ''INTEGER'' then Some Int64
      else if ft = ''FLOAT'' then Some Float64
      else if ft = ''DATE'' then Some Datetime64_ns
      else None)"

text \<open>The loop of \<open>_extract_dtypes\<close>: \<open>dtypes[field.name] = type_map[field.field_type]\<close>.\<close>

fun extract_dtypes_loop :: "SchemaField list \<Rightarrow> (string \<rightharpoonup> dtype) \<Rightarrow> exc + (string \<rightharpoonup> dtype)" where
  "extract_dtypes_loop [] dtypes = Inr dtypes"
| "extract_dtypes_loop (field # rest) dtypes =
     (case extract_dtypes_type_map (field_type field) of
        None \<Rightarrow> Inl (KeyError_str (field_type field))
      | Some dt \<Rightarrow> extract_dtypes_loop rest (dtypes(name field \<mapsto> dt)))"

text \<open>
  \<open>_extract_dtypes\<close>. Its callers pass the result of \<open>get_table_if_exists\<close>, which may be
  \<open>None\<close>; the attribute access \<open>table.schema\<close> then raises \<open>AttributeError\<close>.
\<close>

fun extract_dtypes :: "table option \<Rightarrow> exc + (string \<rightharpoonup> dtype)" where
  "extract_dtypes None = Inl AttributeError"
| "extract_dtypes (Some t) = extract_dtypes_loop (schema t) Map.empty"



text \<open>A dtype is supported when it is a key of the lookup table of \<open>_extract_schema\<close>.\<close>

definition supported_dtype :: "dtype \<Rightarrow> bool" where
  "supported_dtype dt = (dt \<in> {Object, Int32, Int64, Float64, Datetime64_ns, DatetimeTZ ''UTC''})"

section \<open>Python string operations used by the worker\<close>

abbreviation nl :: char where
  "nl \<equiv> CHR 0x0A"

abbreviation sq :: char where
  "sq \<equiv> CHR 0x27"

text \<open>\<open>sep.join(xs)\<close>.\<close>

fun join :: "string \<Rightarrow> string list \<Rightarrow> string" where
  "join sep [] = []"
| "join sep [x] = x"
| "join sep (x # y # ys) = x @ sep @ join sep (y # ys)"

text \<open>The f-string \<open>f"'{x}'"\<close>.\<close>

definition quoted :: "string \<Rightarrow> string" where
  "quoted x = sq # x @ [sq]"

text \<open>\<open>s.startswith(p)\<close>.\<close>

definition startswith :: "string \<Rightarrow> string \<Rightarrow> bool" where
  "startswith s p = (take (length p) s = p)"

text \<open>\<open>Series.unique().tolist()\<close>: the values in order of first appearance.\<close>

definition unique :: "'a list \<Rightarrow> 'a list" where
  "unique xs = rev (remdups (rev xs))"

subsection \<open>\<open>textwrap.dedent\<close>\<close>

text \<open>The lines of a text, split at the newline character (\<open>text.split("\n")\<close>).\<close>

fun split_lines :: "string \<Rightarrow> string list" where
  "split_lines [] = [[]]"
| "split_lines (c # cs) =
     (if c = nl then [] # split_lines cs
      else (case split_lines cs of [] \<Rightarrow> [[c]] | l # ls \<Rightarrow> (c # l) # ls))"

definition is_blank_char :: "char \<Rightarrow> bool" where
  "is_blank_char c = (c = CHR '' '' \<or> c = CHR 0x09)"

text \<open>\<open>_whitespace_only_re.sub('', text)\<close> on one line: a line of blanks and tabs becomes empty.\<close>

definition whitespace_only_sub :: "string \<Rightarrow> string" where
  "whitespace_only_sub l = (if l \<noteq> [] \<and> list_all is_blank_char l then [] else l)"

text \<open>
  \<open>_leading_whitespace_re.findall(text)\<close> on one line: the leading blanks and tabs of a line
  that has another character; no match on a line without one.
\<close>

definition leading_whitespace :: "string \<Rightarrow> string option" where
  "leading_whitespace l =
     (if list_all is_blank_char l then None else Some (takeWhile is_blank_char l))"

fun common_prefix :: "string \<Rightarrow> string \<Rightarrow> string" where
  "common_prefix (x # xs) (y # ys) = (if x = y then x # common_prefix xs ys else [])"
| "common_prefix xs ys = []"

text \<open>One round of the loop \<open>for indent in indents\<close> of \<open>dedent\<close>.\<close>

definition margin_step :: "string option \<Rightarrow> string \<Rightarrow> string option" where
  "margin_step margin indent =
     (case margin of
        None \<Rightarrow> Some indent
      | Some m \<Rightarrow>
          if startswith indent m then Some m
          else if startswith m indent then Some indent
          else Some (common_prefix m indent))"

text \<open>\<open>re.sub(r'(?m)^' + margin, '', text)\<close> on one line.\<close>

definition remove_margin :: "string \<Rightarrow> string \<Rightarrow> string" where
  "remove_margin m l = (if startswith l m then drop (length m) l else l)"

definition dedent :: "string \<Rightarrow> string" where
  "dedent text =
     (let ls = map whitespace_only_sub (split_lines text);
          margin = foldl margin_step None (List.map_filter leading_whitespace ls)
      in case margin of
           None \<Rightarrow> join [nl] ls
         | Some m \<Rightarrow> if m \<noteq> [] then join [nl] (map (remove_margin m) ls) else join [nl] ls)"

subsection \<open>Dates and their \<open>YYYY-MM-DD\<close> rendering\<close>

text \<open>
  A calendar date as year, month and day; the lexicographic order of the triple is the
  chronological order. A date object is always truthy, so an optional date argument is
  falsy exactly when it is \<open>None\<close>.
\<close>

type_synonym date = "nat \<times> nat \<times> nat"

definition digit :: "nat \<Rightarrow> char" where
  "digit n = ''0123456789'' ! (n mod 10)"

fun str_nat :: "nat \<Rightarrow> string" where
  "str_nat n = (if n < 10 then [digit n] else str_nat (n div 10) @ [digit n])"

definition zero_pad :: "nat \<Rightarrow> string \<Rightarrow> string" where
  "zero_pad w s = replicate (w - length s) (CHR ''0'') @ s"

text \<open>\<open>x.format('YYYY-MM-DD')\<close>: four-digit year, two-digit month, two-digit day.\<close>

definition format_ymd :: "date \<Rightarrow> string" where
  "format_ymd d =
     (case d of (y, m, dd) \<Rightarrow>
        zero_pad 4 (str_nat y) @ ''-'' @ zero_pad 2 (str_nat m) @ ''-'' @ zero_pad 2 (str_nat dd))"

declare str_nat.simps [simp del]

section \<open>The warehouse client and the worker's state\<close>

datatype write_disposition = WRITE_EMPTY | WRITE_TRUNCATE | WRITE_APPEND

text \<open>
  A batch handed to \<open>_save_info\<close>: the items of \<open>dict(df.dtypes)\<close> and the values of its
  \<open>date\<close> column (read only when the batch has a column of that name).
\<close>

record dataframe =
  df_dtypes :: "(string \<times> dtype) list"
  df_date :: "date list"

text \<open>
  The rows of the reference frame \<open>codeinfo_df\<close>, each with its \<open>itemcode\<close>, \<open>itemname\<close>
  and \<open>market\<close>, in the order of the triple \<open>itemcode_info\<close>.
\<close>

type_synonym itemcode_info = "string \<times> string \<times> string"

definition itemname :: "itemcode_info \<Rightarrow> string" where
  "itemname r = fst (snd r)"

text \<open>Jobs and row iterators returned by the client are handles.\<close>

type_synonym job = nat

text \<open>Every request the worker sends to the client, in order.\<close>

datatype call =
    GetTable string
  | CreateTable table
  | ListTables
  | ListRows "table option"
  | RowsToDataframe job
  | LoadTableFromDataframe dataframe table "SchemaField list" write_disposition
  | Query string "(string \<times> write_disposition) option"
  | JobResult job
  | JobToDataframe job

text \<open>The messages passed to \<open>logger.info\<close>, with the values interpolated into them.\<close>

datatype log_record =
    LogSkip string
  | LogSaved string string
  | LogDateRange "date option" "date option"
  | LogDeleted string string "itemcode_info list option"

text \<open>
  The client library is outside the repository: each of its requests is a parameter that
  maps the warehouse's state \<open>'w\<close> to a result or a raised exception and the next state.
  \<open>'r\<close> is the type of a row of a frame read back.
\<close>

record ('w, 'r) client =
  get_table :: "string \<Rightarrow> 'w \<Rightarrow> (exc + table) \<times> 'w"
  create_table :: "table \<Rightarrow> 'w \<Rightarrow> (exc + table) \<times> 'w"
  list_tables :: "'w \<Rightarrow> (exc + string list) \<times> 'w"
  list_rows :: "table option \<Rightarrow> 'w \<Rightarrow> (exc + job) \<times> 'w"
  rows_to_dataframe :: "job \<Rightarrow> 'w \<Rightarrow> (exc + 'r list) \<times> 'w"
  load_table_from_dataframe ::
    "dataframe \<Rightarrow> table \<Rightarrow> SchemaField list \<Rightarrow> write_disposition \<Rightarrow> 'w \<Rightarrow> (exc + job) \<times> 'w"
  query :: "string \<Rightarrow> (string \<times> write_disposition) option \<Rightarrow> 'w \<Rightarrow> (exc + job) \<times> 'w"
  job_result :: "job \<Rightarrow> 'w \<Rightarrow> (exc + unit) \<times> 'w"
  job_to_dataframe :: "job \<Rightarrow> 'w \<Rightarrow> (exc + 'r list) \<times> 'w"

record 'w state =
  world :: 'w
  calls :: "call list"
  logged :: "log_record list"

text \<open>A request: the client's answer, the warehouse's next state, and the request recorded.\<close>

definition request :: "call \<Rightarrow> ('w \<Rightarrow> 'a \<times> 'w) \<Rightarrow> 'w state \<Rightarrow> 'a \<times> 'w state" where
  "request c f s = (case f (world s) of (r, w) \<Rightarrow> (r, s\<lparr>world := w, calls := calls s @ [c]\<rparr>))"

definition logger_info :: "log_record \<Rightarrow> 'w state \<Rightarrow> 'w state" where
  "logger_info m s = s\<lparr>logged := logged s @ [m]\<rparr>"

section \<open>The methods of \<open>BigqueryWorker\<close>\<close>

text \<open>\<open>get_table_if_exists\<close>: only \<open>NotFound\<close> is caught.\<close>

definition get_table_if_exists ::
  "('w, 'r) client \<Rightarrow> string \<Rightarrow> 'w state \<Rightarrow> (exc + table option) \<times> 'w state" where
  "get_table_if_exists cl table_name s =
     (case request (GetTable table_name) (get_table cl table_name) s of
        (Inl NotFound, s1) \<Rightarrow> (Inr None, s1)
      | (Inl e, s1) \<Rightarrow> (Inl e, s1)
      | (Inr t, s1) \<Rightarrow> (Inr (Some t), s1))"

text \<open>
  \<open>get_itemcodes_info\<close>. In \<open>self.client.list_rows(table).to_dataframe(dtypes=...)\<close> the call
  of \<open>list_rows\<close> comes first, then the argument \<open>self._extract_dtypes(table)\<close>, then
  \<open>to_dataframe\<close>.
\<close>

definition get_itemcodes_info :: "('w, 'r) client \<Rightarrow> 'w state \<Rightarrow> (exc + 'r list) \<times> 'w state" where
  "get_itemcodes_info cl s =
     (case get_table_if_exists cl ''itemcodes_info'' s of
        (Inl e, s1) \<Rightarrow> (Inl e, s1)
      | (Inr tbl, s1) \<Rightarrow>
          (case request (ListRows tbl) (list_rows cl tbl) s1 of
             (Inl e, s2) \<Rightarrow> (Inl e, s2)
           | (Inr it, s2) \<Rightarrow>
               (case extract_dtypes tbl of
                  Inl e \<Rightarrow> (Inl e, s2)
                | Inr dtypes \<Rightarrow> request (RowsToDataframe it) (rows_to_dataframe cl it) s2)))"

subsection \<open>Table names\<close>

text \<open>The f-string of \<open>_get_daily_info\<close>: \<open>f'{info_type}_info_{itemcode}_{market}'\<close>.\<close>

definition shard_table_name :: "string \<Rightarrow> string \<Rightarrow> string \<Rightarrow> string" where
  "shard_table_name info_type itemcode market = info_type @ ''_info_'' @ itemcode @ ''_'' @ market"

text \<open>The f-strings of \<open>save_daily_item_info\<close> and \<open>save_daily_item_indicator_info\<close>.\<close>

definition save_daily_item_info_table_name :: "itemcode_info \<Rightarrow> string" where
  "save_daily_item_info_table_name i =
     (case i of (itemcode, itemname', market) \<Rightarrow> ''daily_items_info_'' @ itemcode @ ''_'' @ market)"

definition save_daily_item_indicator_info_table_name :: "itemcode_info \<Rightarrow> string" where
  "save_daily_item_indicator_info_table_name i =
     (case i of (itemcode, itemname', market) \<Rightarrow>
        ''daily_items_indicator_info_'' @ itemcode @ ''_'' @ market)"

subsection \<open>Filter clauses\<close>

text \<open>The \<open>where_clause\<close> of \<open>get_daily_info_all\<close>.\<close>

definition get_daily_info_all_where_clause ::
  "itemcode_info list option \<Rightarrow> date option \<Rightarrow> date option \<Rightarrow> string" where
  "get_daily_info_all_where_clause codeinfo_df start_date end_date =
     (let wheres =
            (case codeinfo_df of
               None \<Rightarrow> []
             | Some df \<Rightarrow>
                 if df \<noteq> []
                 then [''itemname IN ('' @ join '', '' (map (\<lambda>r. quoted (itemname r)) df) @ '')'']
                 else []) @
            (case start_date of
               None \<Rightarrow> []
             | Some d \<Rightarrow> [''date >= '' @ quoted (format_ymd d)]) @
            (case end_date of
               None \<Rightarrow> []
             | Some d \<Rightarrow> [''date <= '' @ quoted (format_ymd d)]);
          where_clause = join '' AND '' wheres
      in if where_clause \<noteq> [] then ''WHERE '' @ where_clause else [])"

definition get_daily_info_all_query ::
  "string \<Rightarrow> itemcode_info list option \<Rightarrow> date option \<Rightarrow> date option \<Rightarrow> string" where
  "get_daily_info_all_query info_type codeinfo_df start_date end_date =
     dedent (nl # ''            SELECT *'' @
             nl # ''            FROM stock.'' @ info_type @
             nl # ''            '' @ get_daily_info_all_where_clause codeinfo_df start_date end_date @
             nl # ''        '')"

text \<open>
  \<open>get_daily_info_all\<close>: the table is probed after the query text is built; in
  \<open>self.client.query(query).to_dataframe(dtypes=self._extract_dtypes(table))\<close> the query
  is submitted before \<open>_extract_dtypes\<close> runs.
\<close>

definition get_daily_info_all ::
  "('w, 'r) client \<Rightarrow> string \<Rightarrow> itemcode_info list option \<Rightarrow> date option \<Rightarrow> date option \<Rightarrow>
     'w state \<Rightarrow> (exc + 'r list) \<times> 'w state" where
  "get_daily_info_all cl info_type codeinfo_df start_date end_date s =
     (let sql = get_daily_info_all_query info_type codeinfo_df start_date end_date
      in case get_table_if_exists cl info_type s of
           (Inl e, s1) \<Rightarrow> (Inl e, s1)
         | (Inr tbl, s1) \<Rightarrow>
             (case request (Query sql None) (query cl sql None) s1 of
                (Inl e, s2) \<Rightarrow> (Inl e, s2)
              | (Inr j, s2) \<Rightarrow>
                  (case extract_dtypes tbl of
                     Inl e \<Rightarrow> (Inl e, s2)
                   | Inr dtypes \<Rightarrow> request (JobToDataframe j) (job_to_dataframe cl j) s2)))"

text \<open>
  The \<open>where_clause\<close> of \<open>save_daily_info_all\<close>: the comprehension over
  \<open>enumerate([start_date, end_date])\<close> keeps the index of the unfiltered list, so the
  end date always renders with \<open><=\<close>.
\<close>

definition save_daily_info_all_where_clause :: "date option \<Rightarrow> date option \<Rightarrow> string" where
  "save_daily_info_all_where_clause start_date end_date =
     (let where_clause =
            join '' AND ''
              (concat (map (\<lambda>(i, x). case x of
                                None \<Rightarrow> []
                              | Some d \<Rightarrow>
                                  [''date '' @ (if i = (0::nat) then ''>='' else ''<='') @ '' '' @
                                   quoted (format_ymd d)])
                        (enumerate 0 [start_date, end_date])))
      in if where_clause \<noteq> [] then ''WHERE '' @ where_clause else [])"

definition save_daily_info_all_query ::
  "string list \<Rightarrow> string \<Rightarrow> string" where
  "save_daily_info_all_query table_names where_clause =
     join ''UNION ALL''
       (map (\<lambda>table_name.
               dedent (nl # ''            SELECT *'' @
                       nl # ''            FROM stock.'' @ table_name @
                       nl # ''            '' @ where_clause @
                       nl # ''        ''))
            table_names)"

text \<open>\<open>save_daily_info_all\<close>; it returns the reference of the result table, here its name.\<close>

definition save_daily_info_all ::
  "('w, 'r) client \<Rightarrow> string \<Rightarrow> itemcode_info list \<Rightarrow> write_disposition \<Rightarrow>
     date option \<Rightarrow> date option \<Rightarrow> 'w state \<Rightarrow> (exc + string) \<times> 'w state" where
  "save_daily_info_all cl info_type codeinfo_df write_disposition' start_date end_date s =
     (case request ListTables (list_tables cl) s of
        (Inl e, s1) \<Rightarrow> (Inl e, s1)
      | (Inr all_table_names, s1) \<Rightarrow>
          (let table_names =
                 map (\<lambda>(itemcode, itemname', market). info_type @ ''_'' @ itemcode @ ''_'' @ market)
                     codeinfo_df;
               table_names = filter (\<lambda>x. x \<in> set all_table_names) table_names;
               where_clause = save_daily_info_all_where_clause start_date end_date;
               sql = save_daily_info_all_query table_names where_clause;
               result_table_name = info_type @ ''_all'';
               destination = Some (result_table_name, write_disposition')
           in case request (Query sql destination) (query cl sql destination) s1 of
                (Inl e, s2) \<Rightarrow> (Inl e, s2)
              | (Inr j, s2) \<Rightarrow>
                  (case request (JobResult j) (job_result cl j) s2 of
                     (Inl e, s3) \<Rightarrow> (Inl e, s3)
                   | (Inr u, s3) \<Rightarrow> (Inr result_table_name, s3))))"

subsection \<open>Reading one shard\<close>

text \<open>
  Label slices of a frame whose index is sorted: \<open>df.loc[start_date:]\<close> starts at the first
  row whose index is not below the bound, \<open>df.loc[:end_date]\<close> stops after the last row
  whose index is not above it.
\<close>

definition loc_from :: "date \<Rightarrow> (date \<times> 'p) list \<Rightarrow> (date \<times> 'p) list" where
  "loc_from start_date daily_info = dropWhile (\<lambda>r. fst r < start_date) daily_info"

definition loc_to :: "date \<Rightarrow> (date \<times> 'p) list \<Rightarrow> (date \<times> 'p) list" where
  "loc_to end_date daily_info = takeWhile (\<lambda>r. fst r \<le> end_date) daily_info"

text \<open>
  \<open>_get_daily_info\<close>. A row of the frame read back is its \<open>date\<close> cell and the rest of the
  row; the frame has the columns of the table's schema, so \<open>set_index('date')\<close> raises
  \<open>KeyError\<close> when the schema has no field of that name. \<open>sort_index\<close> sorts by the date.
\<close>

definition get_daily_info ::
  "('w, date \<times> 'p) client \<Rightarrow> string \<Rightarrow> itemcode_info \<Rightarrow> date option \<Rightarrow> date option \<Rightarrow>
     'w state \<Rightarrow> (exc + (date \<times> 'p) list) \<times> 'w state" where
  "get_daily_info cl info_type itemcode_info' start_date end_date s =
     (case itemcode_info' of (itemcode, itemname', market) \<Rightarrow>
        (case get_table_if_exists cl (shard_table_name info_type itemcode market) s of
           (Inl e, s1) \<Rightarrow> (Inl e, s1)
         | (Inr tbl, s1) \<Rightarrow>
             (case request (ListRows tbl) (list_rows cl tbl) s1 of
                (Inl e, s2) \<Rightarrow> (Inl e, s2)
              | (Inr it, s2) \<Rightarrow>
                  (case extract_dtypes tbl of
                     Inl e \<Rightarrow> (Inl e, s2)
                   | Inr dtypes \<Rightarrow>
                       (case request (RowsToDataframe it) (rows_to_dataframe cl it) s2 of
                          (Inl e, s3) \<Rightarrow> (Inl e, s3)
                        | (Inr daily_info, s3) \<Rightarrow>
                            if dtypes ''date'' = None then (Inl (KeyError_str ''date''), s3)
                            else
                              (let daily_info = sort_key fst daily_info;
                                   daily_info = (case start_date of
                                                   None \<Rightarrow> daily_info
                                                 | Some d \<Rightarrow> loc_from d daily_info);
                                   daily_info = (case end_date of
                                                   None \<Rightarrow> daily_info
                                                 | Some d \<Rightarrow> loc_to d daily_info)
                               in (Inr daily_info, s3)))))))"

definition get_daily_item_info ::
  "('w, date \<times> 'p) client \<Rightarrow> itemcode_info \<Rightarrow> date option \<Rightarrow> date option \<Rightarrow>
     'w state \<Rightarrow> (exc + (date \<times> 'p) list) \<times> 'w state" where
  "get_daily_item_info cl itemcode_info' start_date end_date =
     get_daily_info cl ''daily_items'' itemcode_info' start_date end_date"

definition get_daily_item_indicator_info ::
  "('w, date \<times> 'p) client \<Rightarrow> itemcode_info \<Rightarrow> date option \<Rightarrow> date option \<Rightarrow>
     'w state \<Rightarrow> (exc + (date \<times> 'p) list) \<times> 'w state" where
  "get_daily_item_indicator_info cl itemcode_info' start_date end_date =
     get_daily_info cl ''daily_items_indicator'' itemcode_info' start_date end_date"

subsection \<open>Loading a batch\<close>

text \<open>\<open>df['date'].min()\<close> and \<open>df['date'].max()\<close>; \<open>None\<close> is the \<open>NaT\<close> of an empty column.\<close>

definition date_min :: "date list \<Rightarrow> date option" where
  "date_min ds = (case ds of [] \<Rightarrow> None | d # rest \<Rightarrow> Some (foldl min d rest))"

definition date_max :: "date list \<Rightarrow> date option" where
  "date_max ds = (case ds of [] \<Rightarrow> None | d # rest \<Rightarrow> Some (foldl max d rest))"

text \<open>
  \<open>_save_info\<close>. The result is the table, or \<open>None\<close> from the bare \<open>return\<close> of the
  \<open>except Conflict\<close> branch. That branch encloses \<open>load_table_from_dataframe\<close> only;
  \<open>get_table\<close> has its own handler for \<open>NotFound\<close>; \<open>create_table\<close> and \<open>job.result()\<close>
  stand outside every handler.
\<close>

definition save_info ::
  "('w, 'r) client \<Rightarrow> string \<Rightarrow> string \<Rightarrow> dataframe \<Rightarrow> write_disposition \<Rightarrow>
     'w state \<Rightarrow> (exc + table option) \<times> 'w state" where
  "save_info cl info_type table_name df write_disposition' s =
     (case extract_schema (df_dtypes df) of
        Inl e \<Rightarrow> (Inl e, s)
      | Inr schema' \<Rightarrow>
          (case (case request (GetTable table_name) (get_table cl table_name) s of
                   (Inl NotFound, s1) \<Rightarrow>
                     (let new_table = \<lparr>table_id = table_name, schema = schema'\<rparr>
                      in request (CreateTable new_table) (create_table cl new_table) s1)
                 | (Inl e, s1) \<Rightarrow> (Inl e, s1)
                 | (Inr t, s1) \<Rightarrow> (Inr t, s1)) of
             (Inl e, s2) \<Rightarrow> (Inl e, s2)
           | (Inr tbl, s2) \<Rightarrow>
               (case request (LoadTableFromDataframe df tbl schema' write_disposition')
                       (load_table_from_dataframe cl df tbl schema' write_disposition') s2 of
                  (Inl Conflict, s3) \<Rightarrow> (Inr None, logger_info (LogSkip (table_id tbl)) s3)
                | (Inl e, s3) \<Rightarrow> (Inl e, s3)
                | (Inr j, s3) \<Rightarrow>
                    (case request (JobResult j) (job_result cl j) s3 of
                       (Inl e, s4) \<Rightarrow> (Inl e, s4)
                     | (Inr u, s4) \<Rightarrow>
                         (let s5 = logger_info (LogSaved (table_id tbl) info_type) s4;
                              s6 = (if ''date'' \<in> set (map fst (df_dtypes df))
                                    then logger_info
                                           (LogDateRange (date_min (df_date df)) (date_max (df_date df))) s5
                                    else s5)
                          in (Inr (Some tbl), s6))))))"

definition save_itemcodes_info ::
  "('w, 'r) client \<Rightarrow> dataframe \<Rightarrow> write_disposition \<Rightarrow>
     'w state \<Rightarrow> (exc + table option) \<times> 'w state" where
  "save_itemcodes_info cl df write_disposition' =
     save_info cl ''itemcode'' ''itemcodes_info'' df write_disposition'"

definition save_daily_item_info ::
  "('w, 'r) client \<Rightarrow> itemcode_info \<Rightarrow> dataframe \<Rightarrow> write_disposition \<Rightarrow>
     'w state \<Rightarrow> (exc + table option) \<times> 'w state" where
  "save_daily_item_info cl itemcode_info' df write_disposition' =
     save_info cl ''daily_items'' (save_daily_item_info_table_name itemcode_info') df write_disposition'"

definition save_daily_item_indicator_info ::
  "('w, 'r) client \<Rightarrow> itemcode_info \<Rightarrow> dataframe \<Rightarrow> write_disposition \<Rightarrow>
     'w state \<Rightarrow> (exc + table option) \<times> 'w state" where
  "save_daily_item_indicator_info cl itemcode_info' df write_disposition' =
     save_info cl ''daily_items_indicator''
       (save_daily_item_indicator_info_table_name itemcode_info') df write_disposition'"

subsection \<open>Deleting from a watermark date\<close>

definition delete_duplicated_rows_itemnames_clause :: "itemcode_info list option \<Rightarrow> string" where
  "delete_duplicated_rows_itemnames_clause codeinfo_df =
     (case codeinfo_df of
        None \<Rightarrow> []
      | Some df \<Rightarrow>
          ''AND itemname in ('' @ join '', '' (map quoted (unique (map itemname df))) @ '')'')"

text \<open>The line \<open>WHERE date >= '{start_date_str}'\<close> of the delete statement.\<close>

definition delete_duplicated_rows_where :: "string \<Rightarrow> string" where
  "delete_duplicated_rows_where start_date_str = ''WHERE date >= '' @ quoted start_date_str"

definition delete_duplicated_rows_query ::
  "string \<Rightarrow> string \<Rightarrow> itemcode_info list option \<Rightarrow> string" where
  "delete_duplicated_rows_query table_name start_date_str codeinfo_df =
     dedent (nl # ''            DELETE'' @
             nl # ''            FROM stock.'' @ table_name @
             nl # ''            '' @ delete_duplicated_rows_where start_date_str @
             nl # ''                '' @ delete_duplicated_rows_itemnames_clause codeinfo_df @
             nl # ''        '')"

definition delete_duplicated_rows ::
  "('w, 'r) client \<Rightarrow> string \<Rightarrow> string \<Rightarrow> itemcode_info list option \<Rightarrow>
     'w state \<Rightarrow> (exc + unit) \<times> 'w state" where
  "delete_duplicated_rows cl table_name start_date_str codeinfo_df s =
     (case get_table_if_exists cl table_name s of
        (Inl e, s1) \<Rightarrow> (Inl e, s1)
      | (Inr None, s1) \<Rightarrow> (Inr (), s1)
      | (Inr (Some t), s1) \<Rightarrow>
          (let sql = delete_duplicated_rows_query table_name start_date_str codeinfo_df
           in case request (Query sql None) (query cl sql None) s1 of
                (Inl e, s2) \<Rightarrow> (Inl e, s2)
              | (Inr j, s2) \<Rightarrow>
                  (case request (JobResult j) (job_result cl j) s2 of
                     (Inl e, s3) \<Rightarrow> (Inl e, s3)
                   | (Inr u, s3) \<Rightarrow>
                       (Inr (), logger_info (LogDeleted table_name start_date_str codeinfo_df) s3))))"

section \<open>A warehouse to run the worker against\<close>

text \<open>
  A small in-memory warehouse, the input of the concrete runs below. A table holds the dates
  of its rows. Requests that start a job only queue it; a load job is carried out when its
  result is awaited, and a load with \<open>WRITE_EMPTY\<close> into a table that holds rows ends in
  \<open>Conflict\<close> there.
\<close>

datatype wh_job = LoadJob string write_disposition "date list" | QueryJob string | RowIterator string

record warehouse =
  wh_tables :: "(table \<times> date list) list"
  wh_jobs :: "wh_job list"

definition wh_lookup :: "string \<Rightarrow> warehouse \<Rightarrow> (table \<times> date list) option" where
  "wh_lookup tn w = find (\<lambda>p. table_id (fst p) = tn) (wh_tables w)"

definition wh_submit :: "wh_job \<Rightarrow> warehouse \<Rightarrow> (exc + job) \<times> warehouse" where
  "wh_submit j w = (Inr (length (wh_jobs w)), w\<lparr>wh_jobs := wh_jobs w @ [j]\<rparr>)"

definition wh_get_table :: "string \<Rightarrow> warehouse \<Rightarrow> (exc + table) \<times> warehouse" where
  "wh_get_table tn w = (case wh_lookup tn w of None \<Rightarrow> (Inl NotFound, w) | Some p \<Rightarrow> (Inr (fst p), w))"

definition wh_create_table :: "table \<Rightarrow> warehouse \<Rightarrow> (exc + table) \<times> warehouse" where
  "wh_create_table t w =
     (case wh_lookup (table_id t) w of
        None \<Rightarrow> (Inr t, w\<lparr>wh_tables := wh_tables w @ [(t, [])]\<rparr>)
      | Some p \<Rightarrow> (Inl Conflict, w))"

definition wh_list_rows :: "table option \<Rightarrow> warehouse \<Rightarrow> (exc + job) \<times> warehouse" where
  "wh_list_rows tbl w =
     (case tbl of None \<Rightarrow> (Inl TypeError, w) | Some t \<Rightarrow> wh_submit (RowIterator (table_id t)) w)"

definition wh_rows_to_dataframe :: "job \<Rightarrow> warehouse \<Rightarrow> (exc + (date \<times> unit) list) \<times> warehouse" where
  "wh_rows_to_dataframe j w =
     (if j < length (wh_jobs w)
      then (case wh_jobs w ! j of
              RowIterator tn \<Rightarrow>
                (case wh_lookup tn w of
                   None \<Rightarrow> (Inl NotFound, w)
                 | Some p \<Rightarrow> (Inr (map (\<lambda>d. (d, ())) (snd p)), w))
            | _ \<Rightarrow> (Inl (OtherError ''not a row iterator''), w))
      else (Inl (OtherError ''no such job''), w))"

definition wh_store :: "string \<Rightarrow> date list \<Rightarrow> warehouse \<Rightarrow> warehouse" where
  "wh_store tn ds w =
     w\<lparr>wh_tables := map (\<lambda>p. if table_id (fst p) = tn then (fst p, ds) else p) (wh_tables w)\<rparr>"

definition wh_job_result :: "job \<Rightarrow> warehouse \<Rightarrow> (exc + unit) \<times> warehouse" where
  "wh_job_result j w =
     (if j < length (wh_jobs w)
      then (case wh_jobs w ! j of
              LoadJob tn disp ds \<Rightarrow>
                (case wh_lookup tn w of
                   None \<Rightarrow> (Inl NotFound, w)
                 | Some p \<Rightarrow>
                     if disp = WRITE_EMPTY \<and> snd p \<noteq> [] then (Inl Conflict, w)
                     else (Inr (), wh_store tn (if disp = WRITE_APPEND then snd p @ ds else ds) w))
            | _ \<Rightarrow> (Inr (), w))
      else (Inl (OtherError ''no such job''), w))"

definition warehouse_client :: "(warehouse, date \<times> unit) client" where
  "warehouse_client =
     \<lparr>get_table = wh_get_table,
      create_table = wh_create_table,
      list_tables = (\<lambda>w. (Inr (map (\<lambda>p. table_id (fst p)) (wh_tables w)), w)),
      list_rows = wh_list_rows,
      rows_to_dataframe = wh_rows_to_dataframe,
      load_table_from_dataframe = (\<lambda>df t sch disp. wh_submit (LoadJob (table_id t) disp (df_date df))),
      query = (\<lambda>sql dest. wh_submit (QueryJob sql)),
      job_result = wh_job_result,
      job_to_dataframe = (\<lambda>j w. (Inr [], w))\<rparr>"

definition start_state :: "(table \<times> date list) list \<Rightarrow> warehouse state" where
  "start_state ts = \<lparr>world = \<lparr>wh_tables = ts, wh_jobs = []\<rparr>, calls = [], logged = []\<rparr>"

text \<open>Data for the concrete runs: a shard with ten daily rows, stored out of order, and a batch.\<close>

definition example_shard :: table where
  "example_shard =
     \<lparr>table_id = ''daily_items_info_005930_KOSPI'',
      schema = [SchemaField ''date'' ''DATE'', SchemaField ''close'' ''FLOAT'']\<rparr>"

definition example_dates :: "date list" where
  "example_dates =
     [(2024, 1, 7), (2024, 1, 2), (2024, 1, 10), (2024, 1, 5), (2024, 1, 1),
      (2024, 1, 9), (2024, 1, 4), (2024, 1, 6), (2024, 1, 3), (2024, 1, 8)]"

definition example_batch :: dataframe where
  "example_batch =
     \<lparr>df_dtypes = [(''date'', Datetime64_ns), (''close'', Float64)],
      df_date = [(2024, 1, 1), (2024, 1, 2)]\<rparr>"

text \<open>The state in which the first load of the batch into the empty warehouse ends.\<close>

definition example_loaded :: "warehouse state" where
  "example_loaded =
     \<lparr>world =
        \<lparr>wh_tables = [(example_shard, [(2024, 1, 1), (2024, 1, 2)])],
         wh_jobs = [LoadJob ''daily_items_info_005930_KOSPI'' WRITE_EMPTY [(2024, 1, 1), (2024, 1, 2)]]\<rparr>,
      calls =
        [GetTable ''daily_items_info_005930_KOSPI'',
         CreateTable example_shard,
         LoadTableFromDataframe example_batch example_shard (schema example_shard) WRITE_EMPTY,
         JobResult 0],
      logged =
        [LogSaved ''daily_items_info_005930_KOSPI'' ''daily_items'',
         LogDateRange (Some (2024, 1, 1)) (Some (2024, 1, 2))]\<rparr>"

section \<open>Reading a rendered filter as the warehouse does\<close>

text \<open>
  The worker hands the warehouse text. What a \<open>WHERE\<close> clause of that text selects is
  fixed by the query language: the text is cut into tokens, the tokens are read as a
  conjunction of the three clause forms the worker renders, and the clauses are evaluated on a
  row. Text that is not of that form is rejected by the warehouse.
\<close>

datatype sql_token = Word string | Literal string | LParen | RParen | Comma | GreaterEq | LessEq

abbreviation backslash :: char where
  "backslash \<equiv> CHR 0x5C"

definition is_space_char :: "char \<Rightarrow> bool" where
  "is_space_char c = (c = CHR '' '' \<or> c = CHR 0x09 \<or> c = nl)"

definition is_word_char :: "char \<Rightarrow> bool" where
  "is_word_char c =
     (c \<in> set ''abcdefghijklmnopqrstuvwxyzABCDEFGHIJKLMNOPQRSTUVWXYZ0123456789_'')"

text \<open>
  The content of a string literal whose opening quote has been read: it runs to the next
  quote. A backslash starts an escape sequence and a line break may not occur inside; this
  reading covers neither and gives up on them.
\<close>

fun read_literal :: "string \<Rightarrow> (string \<times> string) option" where
  "read_literal [] = None"
| "read_literal (c # cs) =
     (if c = sq then Some ([], cs)
      else if c = backslash \<or> c = nl then None
      else (case read_literal cs of None \<Rightarrow> None | Some (l, rest) \<Rightarrow> Some (c # l, rest)))"

function sql_lex :: "string \<Rightarrow> sql_token list option" where
  "sql_lex [] = Some []"
| "sql_lex (c # cs) =
     (if is_space_char c then sql_lex cs
      else if c = CHR ''('' then map_option (Cons LParen) (sql_lex cs)
      else if c = CHR '')'' then map_option (Cons RParen) (sql_lex cs)
      else if c = CHR '','' then map_option (Cons Comma) (sql_lex cs)
      else if c = CHR ''>'' \<or> c = CHR ''<'' then
        (case cs of
           [] \<Rightarrow> None
         | c' # cs' \<Rightarrow>
             if c' = CHR ''=''
             then map_option (Cons (if c = CHR ''>'' then GreaterEq else LessEq)) (sql_lex cs')
             else None)
      else if c = sq then
        (case read_literal cs of
           None \<Rightarrow> None
         | Some (l, rest) \<Rightarrow> map_option (Cons (Literal l)) (sql_lex rest))
      else if is_word_char c then
        map_option (Cons (Word (c # takeWhile is_word_char cs))) (sql_lex (dropWhile is_word_char cs))
      else None)"
  by pat_completeness auto
termination
proof -
  have shorter: "length rest \<le> length cs" if "read_literal cs = Some (l, rest)" for cs l rest
    using that by (induction cs arbitrary: l) (auto split: if_splits option.splits)
  show ?thesis
    by (relation "measure length")
       (auto dest!: shorter simp: less_Suc_eq_le length_dropWhile_le)
qed

datatype sql_clause = NameIn "string list" | DateGe string | DateLe string

text \<open>The literals of an \<open>IN\<close> list after its opening parenthesis; an empty list is no list.\<close>

fun parse_literals :: "sql_token list \<Rightarrow> (string list \<times> sql_token list) option" where
  "parse_literals (Literal l # Comma # ts) =
     (case parse_literals ts of None \<Rightarrow> None | Some (ls, rest) \<Rightarrow> Some (l # ls, rest))"
| "parse_literals (Literal l # RParen # ts) = Some ([l], ts)"
| "parse_literals ts = None"

text \<open>One clause; the keyword \<open>IN\<close> in either of the spellings the worker uses.\<close>

fun parse_clause :: "sql_token list \<Rightarrow> (sql_clause \<times> sql_token list) option" where
  "parse_clause (Word c # Word k # LParen # ts) =
     (if c = ''itemname'' \<and> (k = ''IN'' \<or> k = ''in'')
      then (case parse_literals ts of None \<Rightarrow> None | Some (ls, rest) \<Rightarrow> Some (NameIn ls, rest))
      else None)"
| "parse_clause (Word c # GreaterEq # Literal l # ts) =
     (if c = ''date'' then Some (DateGe l, ts) else None)"
| "parse_clause (Word c # LessEq # Literal l # ts) =
     (if c = ''date'' then Some (DateLe l, ts) else None)"
| "parse_clause ts = None"

text \<open>Clauses joined by \<open>AND\<close>.\<close>

function parse_conjunction :: "sql_token list \<Rightarrow> sql_clause list option" where
  "parse_conjunction ts =
     (case parse_clause ts of
        None \<Rightarrow> None
      | Some (c, []) \<Rightarrow> Some [c]
      | Some (c, Word k # rest) \<Rightarrow>
          if k = ''AND'' then map_option (Cons c) (parse_conjunction rest) else None
      | Some (c, t # rest) \<Rightarrow> None)"
  by pat_completeness auto
termination
proof -
  have lits: "length rest < length ts" if "parse_literals ts = Some (ls, rest)" for ts ls rest
    using that by (induction ts arbitrary: ls rule: parse_literals.induct)
                  (auto split: option.splits)
  have clause: "length rest < length ts" if "parse_clause ts = Some (c, rest)" for ts c rest
    using that lits by (induction ts rule: parse_clause.induct)
                       (auto split: if_splits option.splits dest!: lits)
  show ?thesis
    by (relation "measure length") (auto dest!: clause)
qed

declare parse_conjunction.simps [simp del]

text \<open>A filter: no text at all (no restriction), or \<open>WHERE\<close> and a conjunction.\<close>

definition sql_where :: "string \<Rightarrow> sql_clause list option" where
  "sql_where text =
     (case sql_lex text of
        None \<Rightarrow> None
      | Some [] \<Rightarrow> Some []
      | Some (Word k # ts) \<Rightarrow> if k = ''WHERE'' then parse_conjunction ts else None
      | Some (t # ts) \<Rightarrow> None)"

definition digit_value :: "char \<Rightarrow> nat option" where
  "digit_value c =
     (if c \<in> set ''0123456789'' then Some (length (takeWhile (\<lambda>d. d \<noteq> c) ''0123456789'')) else None)"

text \<open>A date literal in the form \<open>YYYY-MM-DD\<close>.\<close>

fun parse_ymd :: "string \<Rightarrow> date option" where
  "parse_ymd [y1, y2, y3, y4, h1, m1, m2, h2, d1, d2] =
     (case map digit_value [y1, y2, y3, y4, m1, m2, d1, d2] of
        [Some a, Some b, Some c, Some d, Some e, Some f, Some g, Some h] \<Rightarrow>
          if h1 = CHR ''-'' \<and> h2 = CHR ''-''
          then Some (1000 * a + 100 * b + 10 * c + d, 10 * e + f, 10 * g + h)
          else None
      | _ \<Rightarrow> None)"
| "parse_ymd s = None"

text \<open>A row as far as the filters see it: its \<open>date\<close> and its \<open>itemname\<close>.\<close>

type_synonym filter_row = "date \<times> string"

fun clause_holds :: "sql_clause \<Rightarrow> filter_row \<Rightarrow> bool option" where
  "clause_holds (NameIn ls) r = Some (snd r \<in> set ls)"
| "clause_holds (DateGe l) r = map_option (\<lambda>d. d \<le> fst r) (parse_ymd l)"
| "clause_holds (DateLe l) r = map_option (\<lambda>d. fst r \<le> d) (parse_ymd l)"

text \<open>
  Whether a filter text selects a row; \<open>None\<close> when the warehouse rejects the text (it does
  not read as a filter, or a date literal is no date).
\<close>

definition sql_where_matches :: "string \<Rightarrow> filter_row \<Rightarrow> bool option" where
  "sql_where_matches text r =
     (case sql_where text of
        None \<Rightarrow> None
      | Some cs \<Rightarrow>
          if list_all (\<lambda>c. clause_holds c r \<noteq> None) cs
          then Some (list_all (\<lambda>c. clause_holds c r = Some True) cs)
          else None)"

text \<open>A name that can stand between quotes as it is: no quote, backslash or line break.\<close>

definition literal_safe :: "string \<Rightarrow> bool" where
  "literal_safe x = (sq \<notin> set x \<and> backslash \<notin> set x \<and> nl \<notin> set x)"

text \<open>A date whose \<open>YYYY-MM-DD\<close> rendering has exactly ten characters.\<close>

definition ymd_in_range :: "date \<Rightarrow> bool" where
  "ymd_in_range d = (case d of (y, m, dd) \<Rightarrow> y < 10000 \<and> m < 100 \<and> dd < 100)"



section \<open>Properties of the schema mapping\<close>

lemma type_map_supported:
  "extract_schema_type_map n dt = None \<longleftrightarrow> \<not> supported_dtype dt"
  by (cases dt) (simp_all add: supported_dtype_def)

lemma type_map_name_irrelevant:
  "extract_schema_type_map n dt = None \<Longrightarrow> extract_schema_type_map n' dt = None"
  by (simp add: type_map_supported)

text \<open>
  Claim C4. When a batch has a column whose dtype is not a key of the lookup table,
  \<open>_extract_schema\<close> raises the \<open>KeyError\<close> of the failed subscript (the
  specification's UnmappableTypeError) for such a dtype of the batch, and returns no schema:
  no column is dropped or given another warehouse type.
\<close>

theorem extract_schema_unmapped_fails:
  assumes "\<exists>c\<in>set cols. \<not> supported_dtype (snd c)"
  shows "\<exists>dt. dt \<in> snd ` set cols \<and> \<not> supported_dtype dt \<and>
           extract_schema cols = Inl (KeyError_dtype dt)"
  using assms
proof (induction cols)
  case Nil
  then show ?case by simp
next
  case (Cons c cols)
  obtain n dt where c: "c = (n, dt)" by (cases c)
  show ?case
  proof (cases "supported_dtype dt")
    case False
    then have "extract_schema (c # cols) = Inl (KeyError_dtype dt)"
      using c type_map_supported [of n dt] by simp
    with False c show ?thesis by auto
  next
    case True
    with Cons.prems c have "\<exists>c\<in>set cols. \<not> supported_dtype (snd c)" by auto
    from Cons.IH [OF this] obtain dt' where
      d: "dt' \<in> snd ` set cols" "\<not> supported_dtype dt'" "extract_schema cols = Inl (KeyError_dtype dt')"
      by blast
    from True obtain f where "extract_schema_type_map n dt = Some f"
      using type_map_supported [of n dt] by auto
    with d c have "extract_schema (c # cols) = Inl (KeyError_dtype dt')" by simp
    with d show ?thesis by auto
  qed
qed

theorem extract_schema_unmapped_fails_witness:
  "(\<exists>c\<in>set [(''name'', Object), (''flag'', OtherDtype ''bool'')]. \<not> supported_dtype (snd c)) \<and>
   (\<exists>dt. dt \<in> snd ` set [(''name'', Object), (''flag'', OtherDtype ''bool'')] \<and> \<not> supported_dtype dt \<and>
      extract_schema [(''name'', Object), (''flag'', OtherDtype ''bool'')] = Inl (KeyError_dtype dt))"
proof -
  have h: "\<exists>c\<in>set [(''name'', Object), (''flag'', OtherDtype ''bool'')]. \<not> supported_dtype (snd c)"
    by (simp add: supported_dtype_def)
  from extract_schema_unmapped_fails [OF h] h show ?thesis by blast
qed









section \<open>Table names\<close>

lemma split_at_last:
  assumes "xs @ c # ys = xs' @ c # ys'" and "c \<notin> set ys" and "c \<notin> set ys'"
  shows "xs = xs' \<and> ys = ys'"
  using assms
proof (induction xs arbitrary: xs')
  case Nil
  then show ?case by (cases xs') auto
next
  case (Cons a as)
  show ?case
  proof (cases xs')
    case Nil
    with Cons.prems show ?thesis by auto
  next
    case (Cons b bs)
    with Cons.prems Cons.IH [of bs] show ?thesis by auto
  qed
qed

lemma save_daily_item_info_table_name_shard:
  "save_daily_item_info_table_name (itemcode, n, market) = shard_table_name ''daily_items'' itemcode market"
  by (simp add: save_daily_item_info_table_name_def shard_table_name_def)

lemma save_daily_item_indicator_info_table_name_shard:
  "save_daily_item_indicator_info_table_name (itemcode, n, market) =
     shard_table_name ''daily_items_indicator'' itemcode market"
  by (simp add: save_daily_item_indicator_info_table_name_def shard_table_name_def)

text \<open>
  Claim C8 as stated fails: the parts of a name are joined with underscores and are not
  escaped, so a code and a market that contain an underscore can be split in two ways.
  The triples \<open>(daily_items, A_B, C)\<close> and \<open>(daily_items, A, B_C)\<close> differ and get the
  same table name.
\<close>

theorem shard_table_name_collision:
  "(''daily_items'', ''A_B'', ''C'') \<noteq> (''daily_items'', ''A'', ''B_C'') \<and>
   shard_table_name ''daily_items'' ''A_B'' ''C'' = shard_table_name ''daily_items'' ''A'' ''B_C'' \<and>
   save_daily_item_info_table_name (''A_B'', ''n'', ''C'') =
     save_daily_item_info_table_name (''A'', ''n'', ''B_C'')"
  by (simp add: shard_table_name_def save_daily_item_info_table_name_def)

text \<open>
  Claim C8, amended. Two distinct triples of info type, code and market whose codes and
  markets contain no underscore get distinct table names \<open>{info_type}_info_{code}_{market}\<close>.
\<close>

theorem shard_table_name_inj:
  assumes "CHR ''_'' \<notin> set code1" "CHR ''_'' \<notin> set market1"
      and "CHR ''_'' \<notin> set code2" "CHR ''_'' \<notin> set market2"
      and ne: "(info_type1, code1, market1) \<noteq> (info_type2, code2, market2)"
  shows "shard_table_name info_type1 code1 market1 \<noteq> shard_table_name info_type2 code2 market2"
proof
  assume eq: "shard_table_name info_type1 code1 market1 = shard_table_name info_type2 code2 market2"
  then have "(info_type1 @ ''_info_'' @ code1) @ CHR ''_'' # market1 =
             (info_type2 @ ''_info_'' @ code2) @ CHR ''_'' # market2"
    by (simp add: shard_table_name_def)
  from split_at_last [OF this assms(2) assms(4)]
  have m: "market1 = market2" and r: "info_type1 @ ''_info_'' @ code1 = info_type2 @ ''_info_'' @ code2"
    by simp_all
  from r have "(info_type1 @ ''_info'') @ CHR ''_'' # code1 = (info_type2 @ ''_info'') @ CHR ''_'' # code2"
    by simp
  from split_at_last [OF this assms(1) assms(3)]
  have "code1 = code2" and "info_type1 = info_type2" by simp_all
  with m ne show False by simp
qed

theorem shard_table_name_inj_witness:
  "CHR ''_'' \<notin> set ''005930'' \<and> CHR ''_'' \<notin> set ''KOSPI'' \<and>
   CHR ''_'' \<notin> set ''000660'' \<and> CHR ''_'' \<notin> set ''KOSDAQ'' \<and>
   (''daily_items'', ''005930'', ''KOSPI'') \<noteq> (''daily_items_indicator'', ''000660'', ''KOSDAQ'') \<and>
   shard_table_name ''daily_items'' ''005930'' ''KOSPI'' \<noteq>
     shard_table_name ''daily_items_indicator'' ''000660'' ''KOSDAQ''"
proof -
  have h1: "CHR ''_'' \<notin> set ''005930''" and h2: "CHR ''_'' \<notin> set ''KOSPI''"
   and h3: "CHR ''_'' \<notin> set ''000660''" and h4: "CHR ''_'' \<notin> set ''KOSDAQ''" by simp_all
  have h5: "(''daily_items'', ''005930'', ''KOSPI'') \<noteq> (''daily_items_indicator'', ''000660'', ''KOSDAQ'')"
    by simp
  from shard_table_name_inj [OF h1 h2 h3 h4 h5] h1 h2 h3 h4 h5 show ?thesis by blast
qed

section \<open>Reading the rendered filters\<close>

lemma digit_cases:
  obtains "digit n = CHR ''0''" "n mod 10 = 0" | "digit n = CHR ''1''" "n mod 10 = 1"
        | "digit n = CHR ''2''" "n mod 10 = 2" | "digit n = CHR ''3''" "n mod 10 = 3"
        | "digit n = CHR ''4''" "n mod 10 = 4" | "digit n = CHR ''5''" "n mod 10 = 5"
        | "digit n = CHR ''6''" "n mod 10 = 6" | "digit n = CHR ''7''" "n mod 10 = 7"
        | "digit n = CHR ''8''" "n mod 10 = 8" | "digit n = CHR ''9''" "n mod 10 = 9"
proof -
  define k where "k = n mod 10"
  have "k < 10" by (simp add: k_def)
  then have "k = 0 \<or> k = 1 \<or> k = 2 \<or> k = 3 \<or> k = 4 \<or> k = 5 \<or> k = 6 \<or> k = 7 \<or> k = 8 \<or> k = 9"
    by arith
  then show ?thesis
    using that unfolding k_def by (auto simp: digit_def)
qed

lemma digit_value_digit: "digit_value (digit n) = Some (n mod 10)"
  by (rule digit_cases [of n]) (simp_all add: digit_value_def)

lemma digit_safe:
  "digit n \<noteq> sq" "digit n \<noteq> backslash" "digit n \<noteq> nl"
  "sq \<noteq> digit n" "backslash \<noteq> digit n" "nl \<noteq> digit n"
  by (rule digit_cases [of n]; simp)+

lemma str_nat_1: "n < 10 \<Longrightarrow> str_nat n = [digit n]"
  by (subst str_nat.simps) simp

lemma str_nat_2: "10 \<le> n \<Longrightarrow> n < 100 \<Longrightarrow> str_nat n = [digit (n div 10), digit n]"
  by (subst str_nat.simps) (simp add: str_nat_1)

lemma str_nat_3:
  "100 \<le> n \<Longrightarrow> n < 1000 \<Longrightarrow> str_nat n = [digit (n div 100), digit (n div 10), digit n]"
  using str_nat_2 [of "n div 10"] by (subst str_nat.simps) (simp add: div_mult2_eq [symmetric])

lemma str_nat_4:
  "1000 \<le> n \<Longrightarrow> n < 10000 \<Longrightarrow>
   str_nat n = [digit (n div 1000), digit (n div 100), digit (n div 10), digit n]"
  using str_nat_3 [of "n div 10"] by (subst str_nat.simps) (simp add: div_mult2_eq [symmetric])

lemma digit_0: "digit 0 = CHR ''0''"
  by (simp add: digit_def)

lemma zero_pad_2: "n < 100 \<Longrightarrow> zero_pad 2 (str_nat n) = [digit (n div 10), digit n]"
  by (cases "n < 10") (simp_all add: str_nat_1 str_nat_2 zero_pad_def digit_0)

lemma zero_pad_4:
  assumes "n < 10000"
  shows "zero_pad 4 (str_nat n) = [digit (n div 1000), digit (n div 100), digit (n div 10), digit n]"
proof -
  have r: "replicate 3 (CHR ''0'') = ''000''" "replicate 2 (CHR ''0'') = ''00''"
    by (simp_all add: numeral_3_eq_3 numeral_2_eq_2)
  consider "n < 10" | "10 \<le> n" "n < 100" | "100 \<le> n" "n < 1000" | "1000 \<le> n" using assms by linarith
  then show ?thesis
  proof cases
    case 1
    then show ?thesis by (simp add: str_nat_1 zero_pad_def digit_0 r)
  next
    case 2
    then show ?thesis by (simp add: str_nat_2 zero_pad_def digit_0 r)
  next
    case 3
    then show ?thesis by (simp add: str_nat_3 zero_pad_def digit_0)
  next
    case 4
    with assms show ?thesis by (simp add: str_nat_4 zero_pad_def)
  qed
qed

lemma format_ymd_digits:
  assumes "ymd_in_range (y, m, d)"
  shows "format_ymd (y, m, d) =
           [digit (y div 1000), digit (y div 100), digit (y div 10), digit y, CHR ''-'',
            digit (m div 10), digit m, CHR ''-'', digit (d div 10), digit d]"
  using assms by (simp add: format_ymd_def ymd_in_range_def zero_pad_2 zero_pad_4)

lemma two_digits: "n < 100 \<Longrightarrow> 10 * (n div 10 mod 10) + n mod 10 = (n::nat)"
  by simp

lemma four_digits:
  assumes "n < 10000"
  shows "1000 * (n div 1000 mod 10) + 100 * (n div 100 mod 10) + 10 * (n div 10 mod 10) + n mod 10 = (n::nat)"
proof -
  have a: "n = 10 * (n div 10) + n mod 10" by simp
  have b: "n div 10 = 10 * (n div 100) + n div 10 mod 10"
    using div_mult_mod_eq [of "n div 10" 10] by (simp add: div_mult2_eq [symmetric])
  have c: "n div 100 = 10 * (n div 1000) + n div 100 mod 10"
    using div_mult_mod_eq [of "n div 100" 10] by (simp add: div_mult2_eq [symmetric])
  have d: "n div 1000 mod 10 = n div 1000" using assms by simp
  show ?thesis using a b c d by linarith
qed

lemma parse_format_ymd:
  assumes "ymd_in_range dt"
  shows "parse_ymd (format_ymd dt) = Some dt"
proof -
  obtain y m d where dt: "dt = (y, m, d)" by (cases dt)
  with assms have r: "y < 10000" "m < 100" "d < 100" by (simp_all add: ymd_in_range_def)
  show ?thesis
    using assms four_digits [OF r(1)] two_digits [OF r(2)] two_digits [OF r(3)] unfolding dt
    by (simp add: format_ymd_digits digit_value_digit)
qed

lemma format_ymd_safe:
  assumes "ymd_in_range dt"
  shows "literal_safe (format_ymd dt)"
proof -
  obtain y m d where dt: "dt = (y, m, d)" by (cases dt)
  show ?thesis using assms unfolding dt
    by (simp add: format_ymd_digits literal_safe_def digit_safe)
qed

lemma read_literal_safe:
  "literal_safe x \<Longrightarrow> read_literal (x @ sq # rest) = Some (x, rest)"
  by (induction x) (auto simp: literal_safe_def)

lemma sql_lex_quoted:
  "literal_safe x \<Longrightarrow> sql_lex (quoted x @ rest) = map_option (Cons (Literal x)) (sql_lex rest)"
  by (simp add: quoted_def read_literal_safe is_space_char_def)

lemma sql_lex_in_list:
  assumes "ns \<noteq> []" and "list_all literal_safe ns" and "sql_lex rest = Some ts"
  shows "\<exists>ts'. sql_lex (join '', '' (map quoted ns) @ CHR '')'' # rest) = Some ts' \<and>
               parse_literals ts' = Some (ns, ts)"
  using assms
proof (induction ns)
  case Nil
  then show ?case by simp
next
  case (Cons n ns)
  show ?case
  proof (cases ns)
    case Nil
    with Cons.prems show ?thesis
      by (simp add: sql_lex_quoted is_space_char_def)
  next
    case (Cons m ms)
    with Cons.IH Cons.prems obtain ts' where
      ih: "sql_lex (join '', '' (map quoted ns) @ CHR '')'' # rest) = Some ts'"
          "parse_literals ts' = Some (ns, ts)"
      by auto
    have "join '', '' (map quoted (n # ns)) @ CHR '')'' # rest =
          quoted n @ CHR '','' # CHR '' '' # join '', '' (map quoted ns) @ CHR '')'' # rest"
      using Cons by simp
    then have "sql_lex (join '', '' (map quoted (n # ns)) @ CHR '')'' # rest) =
               Some (Literal n # Comma # ts')"
      using Cons.prems ih(1) by (simp add: sql_lex_quoted is_space_char_def)
    with ih(2) show ?thesis by simp
  qed
qed

text \<open>A clause text and the clause it reads as, whatever follows it.\<close>

lemma names_clause_reads:
  assumes "ns \<noteq> []" and "list_all literal_safe ns" and "sql_lex rest = Some ts"
      and that: "k = ''IN'' \<or> k = ''in''"
  shows "\<exists>ts'. sql_lex ((''itemname '' @ k @ '' ('' @ join '', '' (map quoted ns) @ '')'') @ rest) = Some ts' \<and>
               parse_clause ts' = Some (NameIn ns, ts)"
proof -
  from sql_lex_in_list [OF assms(1-3)] obtain ts' where
    t: "sql_lex (join '', '' (map quoted ns) @ CHR '')'' # rest) = Some ts'"
       "parse_literals ts' = Some (ns, ts)"
    by blast
  from that t show ?thesis
    by (auto simp: is_space_char_def is_word_char_def)
qed

lemma date_clause_reads:
  assumes "literal_safe x" and "sql_lex rest = Some ts"
  shows "\<exists>ts'. sql_lex ((''date >= '' @ quoted x) @ rest) = Some ts' \<and>
               parse_clause ts' = Some (DateGe x, ts)"
    and "\<exists>ts'. sql_lex ((''date <= '' @ quoted x) @ rest) = Some ts' \<and>
               parse_clause ts' = Some (DateLe x, ts)"
  using assms by (simp_all add: is_space_char_def is_word_char_def sql_lex_quoted)

lemma parse_conjunction_last:
  "parse_clause ts = Some (c, []) \<Longrightarrow> parse_conjunction ts = Some [c]"
  by (subst parse_conjunction.simps) simp

lemma parse_conjunction_and:
  "parse_clause ts = Some (c, Word ''AND'' # rest) \<Longrightarrow>
   parse_conjunction ts = map_option (Cons c) (parse_conjunction rest)"
  by (subst parse_conjunction.simps) simp

lemma conjunction_reads:
  assumes "cls \<noteq> []"
      and "\<forall>p\<in>set cls. \<forall>rest ts. sql_lex rest = Some ts \<longrightarrow>
             (\<exists>ts'. sql_lex (fst p @ rest) = Some ts' \<and> parse_clause ts' = Some (snd p, ts))"
  shows "\<exists>ts'. sql_lex (join '' AND '' (map fst cls)) = Some ts' \<and>
               parse_conjunction ts' = Some (map snd cls)"
  using assms
proof (induction cls)
  case Nil
  then show ?case by simp
next
  case (Cons p cls)
  show ?case
  proof (cases cls)
    case Nil
    from Cons.prems(2) have h: "\<forall>rest ts. sql_lex rest = Some ts \<longrightarrow>
             (\<exists>ts'. sql_lex (fst p @ rest) = Some ts' \<and> parse_clause ts' = Some (snd p, ts))"
      by simp
    have "sql_lex [] = Some []" by simp
    with h have "\<exists>ts'. sql_lex (fst p @ []) = Some ts' \<and> parse_clause ts' = Some (snd p, [])"
      by blast
    with Nil show ?thesis by (auto simp: parse_conjunction_last)
  next
    case (Cons q qs)
    with Cons.IH Cons.prems obtain ts2 where
      ih: "sql_lex (join '' AND '' (map fst cls)) = Some ts2" "parse_conjunction ts2 = Some (map snd cls)"
      by auto
    have "sql_lex ('' AND '' @ join '' AND '' (map fst cls)) = Some (Word ''AND'' # ts2)"
      using ih(1) by (simp add: is_space_char_def is_word_char_def)
    with Cons.prems(2) obtain ts' where
      t: "sql_lex (fst p @ '' AND '' @ join '' AND '' (map fst cls)) = Some ts'"
         "parse_clause ts' = Some (snd p, Word ''AND'' # ts2)"
      by (metis list.set_intros(1))
    have "join '' AND '' (map fst (p # cls)) = fst p @ '' AND '' @ join '' AND '' (map fst cls)"
      using Cons by simp
    with t ih(2) show ?thesis by (simp add: parse_conjunction_and)
  qed
qed

lemma sql_where_reads:
  assumes "cls \<noteq> []"
      and "\<forall>p\<in>set cls. \<forall>rest ts. sql_lex rest = Some ts \<longrightarrow>
             (\<exists>ts'. sql_lex (fst p @ rest) = Some ts' \<and> parse_clause ts' = Some (snd p, ts))"
  shows "sql_where (''WHERE '' @ join '' AND '' (map fst cls)) = Some (map snd cls)"
proof -
  from conjunction_reads [OF assms] obtain ts' where
    "sql_lex (join '' AND '' (map fst cls)) = Some ts'" "parse_conjunction ts' = Some (map snd cls)"
    by blast
  then show ?thesis
    by (simp add: sql_where_def is_space_char_def is_word_char_def)
qed

lemma split_lines_append_nl:
  "nl \<notin> set xs \<Longrightarrow> split_lines (xs @ nl # ys) = xs # split_lines ys"
  by (induction xs) auto

lemma split_lines_no_nl: "nl \<notin> set xs \<Longrightarrow> split_lines xs = [xs]"
  by (induction xs) auto

lemma split_lines_join:
  "ls \<noteq> [] \<Longrightarrow> list_all (\<lambda>l. nl \<notin> set l) ls \<Longrightarrow> split_lines (join [nl] ls) = ls"
proof (induction ls)
  case Nil
  then show ?case by simp
next
  case (Cons l ls)
  show ?case
  proof (cases ls)
    case Nil
    with Cons.prems show ?thesis by (simp add: split_lines_no_nl)
  next
    case (Cons m ms)
    with Cons.IH Cons.prems have "split_lines (join [nl] ls) = ls" by simp
    moreover have "join [nl] (l # ls) = l @ nl # join [nl] ls" using Cons by simp
    ultimately show ?thesis using Cons.prems by (simp add: split_lines_append_nl)
  qed
qed

lemma select_statement_dedent:
  assumes "nl \<notin> set table_name" and "nl \<notin> set where_clause"
      and "where_clause = [] \<or> (\<exists>w. where_clause = CHR ''W'' # w)"
  shows "dedent (nl # ''            SELECT *'' @
                 nl # ''            FROM stock.'' @ table_name @
                 nl # ''            '' @ where_clause @
                 nl # ''        '') =
         nl # ''SELECT *'' @ nl # ''FROM stock.'' @ table_name @ nl # where_clause @ [nl]"
proof -
  let ?ls = "[[], ''            SELECT *'', ''            FROM stock.'' @ table_name,
              ''            '' @ where_clause, ''        '']"
  have t: "nl # ''            SELECT *'' @
                 nl # ''            FROM stock.'' @ table_name @
                 nl # ''            '' @ where_clause @
                 nl # ''        '' = join [nl] ?ls"
    by simp
  have s: "split_lines (join [nl] ?ls) = ?ls"
    using assms(1,2) by (intro split_lines_join) simp_all
  from assms(3) show ?thesis
    unfolding t dedent_def s
    by (auto simp: whitespace_only_sub_def leading_whitespace_def is_blank_char_def
          margin_step_def startswith_def remove_margin_def List.map_filter_simps Let_def)
qed

lemma nl_join_quoted:
  "list_all literal_safe ns \<Longrightarrow> nl \<notin> set (join '', '' (map quoted ns))"
proof (induction ns)
  case Nil
  then show ?case by simp
next
  case (Cons n ns)
  then show ?case by (cases ns) (auto simp: quoted_def literal_safe_def)
qed

lemma set_option_cases:
  "(\<forall>d\<in>set_option x. P d) = (case x of None \<Rightarrow> True | Some d \<Rightarrow> P d)"
  by (cases x) simp_all

lemma where_clause_as_clauses:
  fixes codeinfo_df :: "itemcode_info list option"
    and start_date end_date :: "date option"
  defines "names \<equiv> (case codeinfo_df of None \<Rightarrow> [] | Some df \<Rightarrow> map itemname df)"
  defines "cls \<equiv>
     (if names \<noteq> [] then [(''itemname IN ('' @ join '', '' (map quoted names) @ '')'', NameIn names)] else []) @
     (case start_date of None \<Rightarrow> [] | Some d \<Rightarrow> [(''date >= '' @ quoted (format_ymd d), DateGe (format_ymd d))]) @
     (case end_date of None \<Rightarrow> [] | Some d \<Rightarrow> [(''date <= '' @ quoted (format_ymd d), DateLe (format_ymd d))])"
  shows "get_daily_info_all_where_clause codeinfo_df start_date end_date =
           (if cls = [] then [] else ''WHERE '' @ join '' AND '' (map fst cls))"
  unfolding cls_def names_def
  by (cases codeinfo_df; cases start_date; cases end_date)
     (simp_all add: get_daily_info_all_where_clause_def o_def)

lemma where_clause_matches:
  fixes codeinfo_df :: "itemcode_info list option"
  defines "names \<equiv> (case codeinfo_df of None \<Rightarrow> [] | Some df \<Rightarrow> map itemname df)"
  assumes safe: "list_all literal_safe names"
      and s_ok: "case start_date of None \<Rightarrow> True | Some d \<Rightarrow> ymd_in_range d"
      and e_ok: "case end_date of None \<Rightarrow> True | Some d \<Rightarrow> ymd_in_range d"
  shows "sql_where_matches (get_daily_info_all_where_clause codeinfo_df start_date end_date) r =
           Some ((names = [] \<or> snd r \<in> set names) \<and>
                 (case start_date of None \<Rightarrow> True | Some d \<Rightarrow> d \<le> fst r) \<and>
                 (case end_date of None \<Rightarrow> True | Some d \<Rightarrow> fst r \<le> d))"
proof -
  define cls where "cls =
     (if names \<noteq> [] then [(''itemname IN ('' @ join '', '' (map quoted names) @ '')'', NameIn names)] else []) @
     (case start_date of None \<Rightarrow> [] | Some d \<Rightarrow> [(''date >= '' @ quoted (format_ymd d), DateGe (format_ymd d))]) @
     (case end_date of None \<Rightarrow> [] | Some d \<Rightarrow> [(''date <= '' @ quoted (format_ymd d), DateLe (format_ymd d))])"
  have w: "get_daily_info_all_where_clause codeinfo_df start_date end_date =
           (if cls = [] then [] else ''WHERE '' @ join '' AND '' (map fst cls))"
    unfolding cls_def names_def by (rule where_clause_as_clauses)
  have reads: "\<exists>ts'. sql_lex (fst p @ rest) = Some ts' \<and> parse_clause ts' = Some (snd p, ts)"
    if "p \<in> set cls" "sql_lex rest = Some ts" for p rest ts
  proof -
    from that(1) consider
        (n) "names \<noteq> []" "p = (''itemname IN ('' @ join '', '' (map quoted names) @ '')'', NameIn names)"
      | (s) d where "start_date = Some d" "p = (''date >= '' @ quoted (format_ymd d), DateGe (format_ymd d))"
      | (e) d where "end_date = Some d" "p = (''date <= '' @ quoted (format_ymd d), DateLe (format_ymd d))"
      by (auto simp: cls_def split: if_splits option.splits)
    then show ?thesis
    proof cases
      case n
      from names_clause_reads [OF n(1) safe that(2), of "''IN''"] n(2) show ?thesis by simp
    next
      case s
      with s_ok have "literal_safe (format_ymd d)" by (simp add: format_ymd_safe)
      from date_clause_reads(1) [OF this that(2)] s(2) show ?thesis by simp
    next
      case e
      with e_ok have "literal_safe (format_ymd d)" by (simp add: format_ymd_safe)
      from date_clause_reads(2) [OF this that(2)] e(2) show ?thesis by simp
    qed
  qed
  show ?thesis
  proof (cases "cls = []")
    case True
    then have "names = []" "start_date = None" "end_date = None"
      by (auto simp: cls_def split: if_splits option.splits)
    with True w show ?thesis by (simp add: sql_where_matches_def sql_where_def)
  next
    case False
    have "sql_where (''WHERE '' @ join '' AND '' (map fst cls)) = Some (map snd cls)"
      using False reads by (intro sql_where_reads) auto
    with False w have sw: "sql_where (get_daily_info_all_where_clause codeinfo_df start_date end_date) =
                            Some (map snd cls)"
      by simp
    have ps: "parse_ymd (format_ymd d) = Some d" if "start_date = Some d" for d
      using that s_ok by (simp add: parse_format_ymd)
    have pe: "parse_ymd (format_ymd d) = Some d" if "end_date = Some d" for d
      using that e_ok by (simp add: parse_format_ymd)
    show ?thesis
      unfolding sql_where_matches_def sw
      by (cases start_date; cases end_date) (auto simp: cls_def ps pe)
  qed
qed

lemma where_clause_shape:
  fixes codeinfo_df :: "itemcode_info list option"
  defines "names \<equiv> (case codeinfo_df of None \<Rightarrow> [] | Some df \<Rightarrow> map itemname df)"
  assumes safe: "list_all literal_safe names"
      and s_ok: "case start_date of None \<Rightarrow> True | Some d \<Rightarrow> ymd_in_range d"
      and e_ok: "case end_date of None \<Rightarrow> True | Some d \<Rightarrow> ymd_in_range d"
  shows "nl \<notin> set (get_daily_info_all_where_clause codeinfo_df start_date end_date)"
    and "get_daily_info_all_where_clause codeinfo_df start_date end_date = [] \<or>
         (\<exists>w. get_daily_info_all_where_clause codeinfo_df start_date end_date = CHR ''W'' # w)"
proof -
  have n: "nl \<notin> set (join '', '' (map quoted names))" using safe by (rule nl_join_quoted)
  have d: "nl \<notin> set (format_ymd d)" if "ymd_in_range d" for d
    using format_ymd_safe [OF that] by (simp add: literal_safe_def)
  show "nl \<notin> set (get_daily_info_all_where_clause codeinfo_df start_date end_date)"
    using n d s_ok e_ok unfolding names_def
    by (cases codeinfo_df; cases start_date; cases end_date)
       (auto simp: get_daily_info_all_where_clause_def o_def quoted_def)
  show "get_daily_info_all_where_clause codeinfo_df start_date end_date = [] \<or>
         (\<exists>w. get_daily_info_all_where_clause codeinfo_df start_date end_date = CHR ''W'' # w)"
    by (simp add: get_daily_info_all_where_clause_def Let_def)
qed



section \<open>Filter clauses\<close>

lemma format_ymd_example:
  "format_ymd (2024, 1, 1) = ''2024-01-01''" "format_ymd (2024, 1, 31) = ''2024-01-31''"
  by (simp_all add: format_ymd_def zero_pad_def str_nat.simps digit_def)

text \<open>
  Claim C5 as stated fails. The names are put between quotes as they are, so a name with a
  quote in it ends its own literal: for the one-name set \<open>{O'Neil}\<close> the clause rendered is
  \<open>WHERE itemname IN ('O'Neil')\<close>, which is no filter the warehouse accepts, and the row
  of that very name is not selected by it.
\<close>

theorem quote_in_name_breaks_filter:
  "get_daily_info_all_where_clause (Some [(''000001'', ''O'' @ [sq] @ ''Neil'', ''KOSPI'')]) None None =
     ''WHERE itemname IN ('' @ [sq] @ ''O'' @ [sq] @ ''Neil'' @ [sq] @ '')'' \<and>
   sql_where_matches
     (get_daily_info_all_where_clause (Some [(''000001'', ''O'' @ [sq] @ ''Neil'', ''KOSPI'')]) None None)
     ((2024, 1, 15), ''O'' @ [sq] @ ''Neil'') = None"
  by (simp add: get_daily_info_all_where_clause_def itemname_def quoted_def sql_where_matches_def
      sql_where_def is_space_char_def is_word_char_def)

text \<open>
  Claim C5, amended. For instrument names without quote, backslash and line break, dates
  that render as \<open>YYYY-MM-DD\<close> and a table name without line break, \<open>get_daily_info_all\<close>
  submits the query \<open>SELECT * FROM stock.{info_type}\<close> followed by its \<open>where_clause\<close>
  on a line of its own, and that clause is the conjunction of the clauses of the arguments
  supplied: read as the warehouse reads it, it selects exactly the rows whose name is in the
  set (when a non-empty set is given), whose date is not before the start (when given) and
  not after the end (when given). With the three of them it is the text
  \<open>WHERE itemname IN (...) AND date >= 'start' AND date <= 'end'\<close>; with none it is empty
  and every row is selected.
\<close>

theorem get_daily_info_all_filter:
  fixes cl :: "('w, 'r) client"
    and codeinfo_df :: "itemcode_info list option"
    and start_date end_date :: "date option"
  defines "names \<equiv> (case codeinfo_df of None \<Rightarrow> [] | Some df \<Rightarrow> map itemname df)"
  defines "where_clause \<equiv> get_daily_info_all_where_clause codeinfo_df start_date end_date"
  assumes safe: "list_all literal_safe names"
      and s_ok: "case start_date of None \<Rightarrow> True | Some d \<Rightarrow> ymd_in_range d"
      and e_ok: "case end_date of None \<Rightarrow> True | Some d \<Rightarrow> ymd_in_range d"
      and it: "nl \<notin> set info_type"
      and tbl: "get_table_if_exists cl info_type st = (Inr tbl, s1)"
  shows "(\<exists>res s'. get_daily_info_all cl info_type codeinfo_df start_date end_date st = (res, s') \<and>
            take (Suc (length (calls s1))) (calls s') =
              calls s1 @ [Query (nl # ''SELECT *'' @ nl # ''FROM stock.'' @ info_type @
                                 nl # where_clause @ [nl]) None]) \<and>
         sql_where_matches where_clause r =
           Some ((names = [] \<or> snd r \<in> set names) \<and>
                 (case start_date of None \<Rightarrow> True | Some d \<Rightarrow> d \<le> fst r) \<and>
                 (case end_date of None \<Rightarrow> True | Some d \<Rightarrow> fst r \<le> d)) \<and>
         (names = [] \<and> start_date = None \<and> end_date = None \<longrightarrow> where_clause = []) \<and>
         (\<forall>s e. names \<noteq> [] \<and> start_date = Some s \<and> end_date = Some e \<longrightarrow>
            where_clause =
              ''WHERE itemname IN ('' @ join '', '' (map (\<lambda>n. sq # n @ [sq]) names) @
              '') AND date >= '' @ sq # format_ymd s @ sq # '' AND date <= '' @ sq # format_ymd e @ [sq])"
proof -
  have sh: "nl \<notin> set where_clause" "where_clause = [] \<or> (\<exists>w. where_clause = CHR ''W'' # w)"
    unfolding where_clause_def
    using where_clause_shape [of codeinfo_df start_date end_date] safe s_ok e_ok
    unfolding names_def by blast+
  have q: "get_daily_info_all_query info_type codeinfo_df start_date end_date =
             nl # ''SELECT *'' @ nl # ''FROM stock.'' @ info_type @ nl # where_clause @ [nl]"
    unfolding get_daily_info_all_query_def where_clause_def [symmetric]
    by (rule select_statement_dedent [OF it sh])
  have sent: "\<exists>res s'. get_daily_info_all cl info_type codeinfo_df start_date end_date st = (res, s') \<and>
            take (Suc (length (calls s1))) (calls s') =
              calls s1 @ [Query (nl # ''SELECT *'' @ nl # ''FROM stock.'' @ info_type @
                                 nl # where_clause @ [nl]) None]"
    using tbl unfolding get_daily_info_all_def q Let_def
    by (auto simp: request_def split: prod.splits sum.splits)
  have m: "sql_where_matches where_clause r =
           Some ((names = [] \<or> snd r \<in> set names) \<and>
                 (case start_date of None \<Rightarrow> True | Some d \<Rightarrow> d \<le> fst r) \<and>
                 (case end_date of None \<Rightarrow> True | Some d \<Rightarrow> fst r \<le> d))"
    unfolding where_clause_def names_def
    using safe s_ok e_ok unfolding names_def by (rule where_clause_matches)
  have none: "where_clause = []" if "names = []" "start_date = None" "end_date = None"
    using that unfolding where_clause_def names_def
    by (cases codeinfo_df) (simp_all add: get_daily_info_all_where_clause_def)
  have full: "where_clause =
              ''WHERE itemname IN ('' @ join '', '' (map (\<lambda>n. sq # n @ [sq]) names) @
              '') AND date >= '' @ sq # format_ymd s @ sq # '' AND date <= '' @ sq # format_ymd e @ [sq]"
    if "names \<noteq> []" "start_date = Some s" "end_date = Some e" for s e
    using that unfolding where_clause_def names_def
    by (cases codeinfo_df) (simp_all add: get_daily_info_all_where_clause_def quoted_def o_def)
  from sent m none full show ?thesis by blast
qed

theorem get_daily_info_all_filter_witness:
  "list_all literal_safe [''A'', ''B''] \<and> ymd_in_range (2024, 1, 1) \<and> ymd_in_range (2024, 1, 31) \<and>
   nl \<notin> set ''daily_items_all'' \<and>
   get_table_if_exists warehouse_client ''daily_items_all'' (start_state [] :: warehouse state) =
     (Inr None, \<lparr>world = \<lparr>wh_tables = [], wh_jobs = []\<rparr>, calls = [GetTable ''daily_items_all''], logged = []\<rparr>) \<and>
   (\<exists>res s'. get_daily_info_all warehouse_client ''daily_items_all''
                (Some [(''000001'', ''A'', ''KOSPI''), (''000002'', ''B'', ''KOSPI'')])
                (Some (2024, 1, 1)) (Some (2024, 1, 31)) (start_state []) = (res, s') \<and>
      take 2 (calls s') =
        [GetTable ''daily_items_all'',
         Query (nl # ''SELECT *'' @ nl # ''FROM stock.daily_items_all'' @
                nl # ''WHERE itemname IN ('' @ sq # ''A'' @ sq # '', '' @ sq # ''B'' @ sq #
                     '') AND date >= '' @ sq # ''2024-01-01'' @ sq #
                     '' AND date <= '' @ sq # ''2024-01-31'' @ [sq, nl]) None]) \<and>
   sql_where_matches
     (get_daily_info_all_where_clause (Some [(''000001'', ''A'', ''KOSPI''), (''000002'', ''B'', ''KOSPI'')])
        (Some (2024, 1, 1)) (Some (2024, 1, 31)))
     ((2024, 1, 31), ''B'') = Some True \<and>
   sql_where_matches
     (get_daily_info_all_where_clause (Some [(''000001'', ''A'', ''KOSPI''), (''000002'', ''B'', ''KOSPI'')])
        (Some (2024, 1, 1)) (Some (2024, 1, 31)))
     ((2024, 2, 1), ''B'') = Some False \<and>
   sql_where_matches
     (get_daily_info_all_where_clause (Some [(''000001'', ''A'', ''KOSPI''), (''000002'', ''B'', ''KOSPI'')])
        (Some (2024, 1, 1)) (Some (2024, 1, 31)))
     ((2024, 1, 15), ''C'') = Some False"
proof -
  let ?df = "Some [(''000001'', ''A'', ''KOSPI''), (''000002'', ''B'', ''KOSPI'')] :: itemcode_info list option"
  let ?s1 = "\<lparr>world = \<lparr>wh_tables = [], wh_jobs = []\<rparr>, calls = [GetTable ''daily_items_all''], logged = []\<rparr>"
  have h1: "list_all literal_safe (case ?df of None \<Rightarrow> [] | Some df \<Rightarrow> map itemname df)"
    by (simp add: literal_safe_def itemname_def)
  have h2: "case Some (2024, 1, 1) of None \<Rightarrow> True | Some d \<Rightarrow> ymd_in_range d"
    by (simp add: ymd_in_range_def)
  have h3: "case Some (2024, 1, 31) of None \<Rightarrow> True | Some d \<Rightarrow> ymd_in_range d"
    by (simp add: ymd_in_range_def)
  have h4: "nl \<notin> set ''daily_items_all''" by simp
  have h5: "get_table_if_exists warehouse_client ''daily_items_all'' (start_state [] :: warehouse state) =
              (Inr None, ?s1)"
    by (simp add: get_table_if_exists_def request_def warehouse_client_def wh_get_table_def
          wh_lookup_def start_state_def)
  have w: "get_daily_info_all_where_clause ?df (Some (2024, 1, 1)) (Some (2024, 1, 31)) =
            ''WHERE itemname IN ('' @ sq # ''A'' @ sq # '', '' @ sq # ''B'' @ sq #
                     '') AND date >= '' @ sq # ''2024-01-01'' @ sq #
                     '' AND date <= '' @ sq # ''2024-01-31'' @ [sq]"
    by (simp add: get_daily_info_all_where_clause_def format_ymd_example itemname_def quoted_def
          del: One_nat_def)
  note t = get_daily_info_all_filter [OF h1 h2 h3 h4 h5]
  from t [of "((2024, 1, 31), ''B'')"] obtain res s' where
    q: "get_daily_info_all warehouse_client ''daily_items_all'' ?df
          (Some (2024, 1, 1)) (Some (2024, 1, 31)) (start_state []) = (res, s')"
       "take (Suc (length (calls ?s1))) (calls s') =
          calls ?s1 @ [Query (nl # ''SELECT *'' @ nl # ''FROM stock.'' @ ''daily_items_all'' @
             nl # get_daily_info_all_where_clause ?df (Some (2024, 1, 1)) (Some (2024, 1, 31)) @ [nl]) None]"
    by blast
  from q(2) have q2: "take 2 (calls s') =
        [GetTable ''daily_items_all'',
         Query (nl # ''SELECT *'' @ nl # ''FROM stock.daily_items_all'' @
                nl # ''WHERE itemname IN ('' @ sq # ''A'' @ sq # '', '' @ sq # ''B'' @ sq #
                     '') AND date >= '' @ sq # ''2024-01-01'' @ sq #
                     '' AND date <= '' @ sq # ''2024-01-31'' @ [sq, nl]) None]"
    unfolding w by (simp add: numeral_2_eq_2)
  note m = t [THEN conjunct2, THEN conjunct1]
  have m1: "sql_where_matches (get_daily_info_all_where_clause ?df (Some (2024, 1, 1)) (Some (2024, 1, 31)))
              ((2024, 1, 31), ''B'') = Some True"
    using m [of "((2024, 1, 31), ''B'')"] by (simp add: itemname_def)
  have m2: "sql_where_matches (get_daily_info_all_where_clause ?df (Some (2024, 1, 1)) (Some (2024, 1, 31)))
              ((2024, 2, 1), ''B'') = Some False"
    using m [of "((2024, 2, 1), ''B'')"] by (simp add: itemname_def)
  have m3: "sql_where_matches (get_daily_info_all_where_clause ?df (Some (2024, 1, 1)) (Some (2024, 1, 31)))
              ((2024, 1, 15), ''C'') = Some False"
    using m [of "((2024, 1, 15), ''C'')"] by (simp add: itemname_def)
  have g: "list_all literal_safe [''A'', ''B''] \<and> ymd_in_range (2024, 1, 1) \<and> ymd_in_range (2024, 1, 31)"
    by (simp add: literal_safe_def ymd_in_range_def)
  from g h4 h5 q(1) q2 m1 m2 m3 show ?thesis by blast
qed

text \<open>
  Claim C9 as stated fails. For the instrument set \<open>{A}\<close> and no dates the read path
  renders \<open>WHERE itemname IN ('A')\<close> and the union-query path renders no filter; for the
  empty instrument set the read path renders no clause and the delete path renders
  \<open>AND itemname in ()\<close>.
\<close>

theorem filter_clauses_differ:
  "get_daily_info_all_where_clause (Some [(''005930'', ''A'', ''KOSPI'')]) None None \<noteq>
     save_daily_info_all_where_clause None None \<and>
   get_daily_info_all_where_clause (Some [(''005930'', ''A'', ''KOSPI'')]) None None =
     ''WHERE itemname IN ('' @ quoted ''A'' @ '')'' \<and>
   save_daily_info_all_where_clause None None = [] \<and>
   get_daily_info_all_where_clause (Some []) None None = [] \<and>
   delete_duplicated_rows_itemnames_clause (Some []) = ''AND itemname in ()''"
  by (simp add: get_daily_info_all_where_clause_def save_daily_info_all_where_clause_def
      delete_duplicated_rows_itemnames_clause_def itemname_def unique_def)

text \<open>
  Claim C9, amended. For every combination of optional start and end date the read path
  without instrument names (no frame, or an empty one) and the union-query path render the
  same \<open>WHERE\<close> clause; the \<open>WHERE date >= '...'\<close> line of the delete path, given a
  start date in \<open>YYYY-MM-DD\<close> form, is the read path's clause for that start date alone,
  and without a frame the delete path adds no instrument clause.
\<close>

theorem date_clauses_agree:
  "get_daily_info_all_where_clause None start_date end_date =
     save_daily_info_all_where_clause start_date end_date \<and>
   get_daily_info_all_where_clause (Some []) start_date end_date =
     save_daily_info_all_where_clause start_date end_date \<and>
   delete_duplicated_rows_where (format_ymd d) = get_daily_info_all_where_clause None (Some d) None \<and>
   delete_duplicated_rows_itemnames_clause None = []"
  by (cases start_date; cases end_date)
     (simp_all add: get_daily_info_all_where_clause_def save_daily_info_all_where_clause_def
       delete_duplicated_rows_where_def delete_duplicated_rows_itemnames_clause_def enumerate_eq_zip)



section \<open>Absent tables and empty shard sets\<close>

lemma get_table_if_exists_absent:
  "get_table cl tn (world s) = (Inl NotFound, w1) \<Longrightarrow>
   get_table_if_exists cl tn s = (Inr None, s\<lparr>world := w1, calls := calls s @ [GetTable tn]\<rparr>)"
  by (simp add: get_table_if_exists_def request_def)

lemma get_table_if_exists_present:
  "get_table cl tn (world s) = (Inr t, w1) \<Longrightarrow>
   get_table_if_exists cl tn s = (Inr (Some t), s\<lparr>world := w1, calls := calls s @ [GetTable tn]\<rparr>)"
  by (simp add: get_table_if_exists_def request_def)

text \<open>
  Claim C10. When the client answers \<open>NotFound\<close> for a table, \<open>get_table_if_exists\<close>
  returns \<open>None\<close>; \<open>get_itemcodes_info\<close> (for the reference table) and \<open>_get_daily_info\<close>
  (for a shard) then call \<open>list_rows\<close> on that \<open>None\<close> and end in an exception, whatever
  \<open>list_rows\<close> answers: they never return a frame.
\<close>

theorem absent_table_reads_raise:
  fixes cl :: "('w, date \<times> 'p) client"
  assumes "get_table cl tn (world s) = (Inl NotFound, w1)"
  shows "get_table_if_exists cl tn s = (Inr None, s\<lparr>world := w1, calls := calls s @ [GetTable tn]\<rparr>) \<and>
         (tn = ''itemcodes_info'' \<longrightarrow>
            (\<exists>e s'. get_itemcodes_info cl s = (Inl e, s') \<and>
                    calls s' = calls s @ [GetTable tn, ListRows None])) \<and>
         (tn = shard_table_name info_type itemcode market \<longrightarrow>
            (\<exists>e s'. get_daily_info cl info_type (itemcode, itemname', market) start_date end_date s = (Inl e, s') \<and>
                    calls s' = calls s @ [GetTable tn, ListRows None]))"
proof -
  note a = get_table_if_exists_absent [OF assms]
  obtain r w2 where lr: "list_rows cl None w1 = (r, w2)" by (cases "list_rows cl None w1")
  have "\<exists>e s'. get_itemcodes_info cl s = (Inl e, s') \<and>
                    calls s' = calls s @ [GetTable tn, ListRows None]" if "tn = ''itemcodes_info''"
    using a lr that by (cases r) (simp_all add: get_itemcodes_info_def request_def)
  moreover have "\<exists>e s'. get_daily_info cl info_type (itemcode, itemname', market) start_date end_date s = (Inl e, s') \<and>
                    calls s' = calls s @ [GetTable tn, ListRows None]"
    if "tn = shard_table_name info_type itemcode market"
    using a lr that by (cases r) (simp_all add: get_daily_info_def request_def)
  ultimately show ?thesis using a by blast
qed

theorem absent_table_reads_raise_witness:
  "get_table warehouse_client ''itemcodes_info'' (world (start_state [])) =
     (Inl NotFound, \<lparr>wh_tables = [], wh_jobs = []\<rparr>) \<and>
   fst (get_table_if_exists warehouse_client ''itemcodes_info'' (start_state [])) = Inr None \<and>
   (\<exists>e s'. get_itemcodes_info warehouse_client (start_state []) = (Inl e, s') \<and>
      calls s' = calls (start_state []) @ [GetTable ''itemcodes_info'', ListRows None]) \<and>
   get_table warehouse_client (shard_table_name ''daily_items'' ''005930'' ''KOSPI'') (world (start_state [])) =
     (Inl NotFound, \<lparr>wh_tables = [], wh_jobs = []\<rparr>) \<and>
   (\<exists>e s'. get_daily_info warehouse_client ''daily_items'' (''005930'', ''Samsung'', ''KOSPI'') None None
              (start_state []) = (Inl e, s') \<and>
      calls s' = calls (start_state []) @
        [GetTable (shard_table_name ''daily_items'' ''005930'' ''KOSPI''), ListRows None])"
proof -
  have h1: "get_table warehouse_client ''itemcodes_info'' (world (start_state [])) =
     (Inl NotFound, \<lparr>wh_tables = [], wh_jobs = []\<rparr>)"
    by (simp add: warehouse_client_def wh_get_table_def wh_lookup_def start_state_def)
  have h2: "get_table warehouse_client (shard_table_name ''daily_items'' ''005930'' ''KOSPI'') (world (start_state [])) =
     (Inl NotFound, \<lparr>wh_tables = [], wh_jobs = []\<rparr>)"
    by (simp add: warehouse_client_def wh_get_table_def wh_lookup_def start_state_def)
  from absent_table_reads_raise [OF h1] absent_table_reads_raise [OF h2, of "''daily_items''" "''005930''" "''KOSPI''"] h1 h2
  show ?thesis by simp
qed

text \<open>
  Claim C3 as stated fails. With no table in the warehouse, \<open>save_daily_info_all\<close> for one
  instrument joins an empty list of statements, submits the empty text as a query and, the
  warehouse accepting it, returns the result table's reference; no \<open>NoDataError\<close> is raised.
\<close>

theorem save_daily_info_all_no_shards_submits_empty_query:
  "save_daily_info_all warehouse_client ''daily_items_info'' [(''005930'', ''Samsung'', ''KOSPI'')]
     WRITE_EMPTY None None (start_state []) =
   (Inr ''daily_items_info_all'',
    \<lparr>world = \<lparr>wh_tables = [], wh_jobs = [QueryJob []]\<rparr>,
     calls = [ListTables, Query [] (Some (''daily_items_info_all'', WRITE_EMPTY)), JobResult 0],
     logged = []\<rparr>) \<and>
   fst (save_daily_info_all warehouse_client ''daily_items_info'' [(''005930'', ''Samsung'', ''KOSPI'')]
     WRITE_EMPTY None None (start_state [])) \<noteq> Inl NoDataError"
  by (simp add: save_daily_info_all_def request_def warehouse_client_def start_state_def
      save_daily_info_all_query_def wh_submit_def wh_job_result_def Let_def)

text \<open>
  Claim C3, amended. When none of the resolved shard names is in the table listing,
  \<open>save_daily_info_all\<close> submits the empty query text with the destination
  \<open>{info_type}_all\<close> right after listing the tables, and its outcome is the client's answer
  to that query and to the wait for its job.
\<close>

theorem save_daily_info_all_no_shards:
  assumes lt: "list_tables cl (world s) = (Inr all_table_names, w1)"
      and none: "\<forall>r\<in>set codeinfo_df.
                   info_type @ ''_'' @ fst r @ ''_'' @ snd (snd r) \<notin> set all_table_names"
  shows "\<exists>r s'. save_daily_info_all cl info_type codeinfo_df wd start_date end_date s = (r, s') \<and>
           take (length (calls s) + 2) (calls s') =
             calls s @ [ListTables, Query [] (Some (info_type @ ''_all'', wd))] \<and>
           r = (case query cl [] (Some (info_type @ ''_all'', wd)) w1 of
                  (Inl e, w2) \<Rightarrow> Inl e
                | (Inr j, w2) \<Rightarrow>
                    (case job_result cl j w2 of
                       (Inl e, w3) \<Rightarrow> Inl e
                     | (Inr u, w3) \<Rightarrow> Inr (info_type @ ''_all'')))"
proof -
  have "filter (\<lambda>x. x \<in> set all_table_names)
          (map (\<lambda>(itemcode, itemname', market). info_type @ ''_'' @ itemcode @ ''_'' @ market) codeinfo_df) = []"
    using none by (auto simp: filter_empty_conv)
  then show ?thesis using lt
    by (auto simp: save_daily_info_all_def request_def save_daily_info_all_query_def Let_def
             split: prod.splits sum.splits)
qed

theorem save_daily_info_all_no_shards_witness:
  "list_tables warehouse_client (world (start_state [])) = (Inr [], \<lparr>wh_tables = [], wh_jobs = []\<rparr>) \<and>
   list_all (\<lambda>r. ''daily_items_info'' @ ''_'' @ fst r @ ''_'' @ snd (snd r) \<notin> set [])
     [(''005930'', ''Samsung'', ''KOSPI'')] \<and>
   (\<exists>r s'. save_daily_info_all warehouse_client ''daily_items_info'' [(''005930'', ''Samsung'', ''KOSPI'')]
              WRITE_TRUNCATE None None (start_state []) = (r, s') \<and>
      take (length (calls (start_state [])) + 2) (calls s') =
        calls (start_state []) @ [ListTables, Query [] (Some (''daily_items_info'' @ ''_all'', WRITE_TRUNCATE))] \<and>
      r = Inr ''daily_items_info_all'')"
proof -
  have h1: "list_tables warehouse_client (world (start_state [])) = (Inr [], \<lparr>wh_tables = [], wh_jobs = []\<rparr>)"
    by (simp add: warehouse_client_def start_state_def)
  have h2: "\<forall>r\<in>set [(''005930'', ''Samsung'', ''KOSPI'')].
              ''daily_items_info'' @ ''_'' @ fst r @ ''_'' @ snd (snd r) \<notin> set []"
    by simp
  from save_daily_info_all_no_shards [OF h1 h2, of WRITE_TRUNCATE None None] obtain r s' where
    r: "save_daily_info_all warehouse_client ''daily_items_info'' [(''005930'', ''Samsung'', ''KOSPI'')]
              WRITE_TRUNCATE None None (start_state []) = (r, s')"
       "take (length (calls (start_state [])) + 2) (calls s') =
        calls (start_state []) @ [ListTables, Query [] (Some (''daily_items_info'' @ ''_all'', WRITE_TRUNCATE))]"
       "r = (case query warehouse_client [] (Some (''daily_items_info'' @ ''_all'', WRITE_TRUNCATE)) \<lparr>wh_tables = [], wh_jobs = []\<rparr> of
                  (Inl e, w2) \<Rightarrow> Inl e
                | (Inr j, w2) \<Rightarrow>
                    (case job_result warehouse_client j w2 of
                       (Inl e, w3) \<Rightarrow> Inl e
                     | (Inr u, w3) \<Rightarrow> Inr (''daily_items_info'' @ ''_all'')))"
    by blast
  from r(3) have "r = Inr ''daily_items_info_all''"
    by (simp add: warehouse_client_def wh_submit_def wh_job_result_def)
  with r(1,2) h1 show ?thesis by simp
qed

section \<open>Reading a shard and loading a batch\<close>

lemma loc_from_sorted:
  "sorted (map fst xs) \<Longrightarrow> loc_from d xs = filter (\<lambda>r. d \<le> fst r) xs"
proof (induction xs)
  case Nil
  show ?case by (simp add: loc_from_def)
next
  case (Cons a xs)
  show ?case
  proof (cases "fst a < d")
    case True
    with Cons show ?thesis by (simp add: loc_from_def)
  next
    case False
    with Cons.prems have "\<forall>r\<in>set (a # xs). d \<le> fst r" by auto
    then have "filter (\<lambda>r. d \<le> fst r) (a # xs) = a # xs" by (simp only: filter_True)
    with False show ?thesis by (simp add: loc_from_def)
  qed
qed

lemma loc_to_sorted:
  "sorted (map fst xs) \<Longrightarrow> loc_to d xs = filter (\<lambda>r. fst r \<le> d) xs"
proof (induction xs)
  case Nil
  show ?case by (simp add: loc_to_def)
next
  case (Cons a xs)
  show ?case
  proof (cases "fst a \<le> d")
    case True
    with Cons show ?thesis by (simp add: loc_to_def)
  next
    case False
    with Cons.prems have "\<forall>r\<in>set (a # xs). \<not> fst r \<le> d" by auto
    then have "filter (\<lambda>r. fst r \<le> d) (a # xs) = []" by (simp only: filter_False)
    with False show ?thesis by (simp add: loc_to_def)
  qed
qed

text \<open>
  Claim C6. When the shard exists, has a \<open>date\<close> field and its rows (with pairwise
  different dates) are read back, \<open>_get_daily_info\<close> returns the rows sorted by date and
  cut to the range inclusive on both bounds: exactly the rows whose date is not before the
  start date (when one is given) and not after the end date (when one is given).
\<close>

theorem get_daily_info_inclusive_slice:
  fixes cl :: "('w, date \<times> 'p) client"
  assumes gt: "get_table cl (shard_table_name info_type itemcode market) (world s) = (Inr t, w1)"
      and lr: "list_rows cl (Some t) w1 = (Inr it, w2)"
      and dt: "extract_dtypes (Some t) = Inr dtypes" "dtypes ''date'' \<noteq> None"
      and df: "rows_to_dataframe cl it w2 = (Inr daily_rows, w3)"
      and dist: "distinct (map fst daily_rows)"
  shows "\<exists>result. fst (get_daily_info cl info_type (itemcode, itemname', market) start_date end_date s) = Inr result \<and>
           result = filter (\<lambda>r. (case start_date of None \<Rightarrow> True | Some d \<Rightarrow> d \<le> fst r) \<and>
                                (case end_date of None \<Rightarrow> True | Some d \<Rightarrow> fst r \<le> d))
                           (sort_key fst daily_rows) \<and>
           set result = {r \<in> set daily_rows.
                           (case start_date of None \<Rightarrow> True | Some d \<Rightarrow> d \<le> fst r) \<and>
                           (case end_date of None \<Rightarrow> True | Some d \<Rightarrow> fst r \<le> d)} \<and>
           sorted (map fst result) \<and> distinct (map fst result)"
proof -
  let ?sorted = "sort_key fst daily_rows"
  let ?P = "\<lambda>r. (case start_date of None \<Rightarrow> True | Some d \<Rightarrow> d \<le> fst r) \<and>
                 (case end_date of None \<Rightarrow> True | Some d \<Rightarrow> fst r \<le> d)"
  have so: "sorted (map fst ?sorted)" by (rule sorted_sort_key)
  let ?a = "case start_date of None \<Rightarrow> ?sorted | Some d \<Rightarrow> loc_from d ?sorted"
  have a: "?a = filter (\<lambda>r. case start_date of None \<Rightarrow> True | Some d \<Rightarrow> d \<le> fst r) ?sorted"
    using so by (cases start_date) (simp_all add: loc_from_sorted)
  have sa: "sorted (map fst ?a)" unfolding a using so by (rule sorted_filter)
  let ?b = "case end_date of None \<Rightarrow> ?a | Some d \<Rightarrow> loc_to d ?a"
  have "?b = filter (\<lambda>r. case end_date of None \<Rightarrow> True | Some d \<Rightarrow> fst r \<le> d) ?a"
    using sa by (cases end_date) (simp_all add: loc_to_sorted)
  then have b: "?b = filter ?P ?sorted"
    unfolding a by (simp add: conj_commute)
  have run: "fst (get_daily_info cl info_type (itemcode, itemname', market) start_date end_date s) = Inr ?b"
    using gt lr dt df
    by (simp add: get_daily_info_def get_table_if_exists_def request_def Let_def)
  have "distinct (map fst ?sorted)" using dist by (simp add: distinct_map)
  then have d: "distinct (map fst (filter ?P ?sorted))" by (rule distinct_map_filter)
  have so2: "sorted (map fst (filter ?P ?sorted))" using so by (rule sorted_filter)
  from run b d so2 show ?thesis by auto
qed


theorem get_daily_info_inclusive_slice_witness:
  "get_table warehouse_client (shard_table_name ''daily_items'' ''005930'' ''KOSPI'')
     (world (start_state [(example_shard, example_dates)])) =
     (Inr example_shard, \<lparr>wh_tables = [(example_shard, example_dates)], wh_jobs = []\<rparr>) \<and>
   list_rows warehouse_client (Some example_shard)
     \<lparr>wh_tables = [(example_shard, example_dates)], wh_jobs = []\<rparr> =
     (Inr 0, \<lparr>wh_tables = [(example_shard, example_dates)],
              wh_jobs = [RowIterator ''daily_items_info_005930_KOSPI'']\<rparr>) \<and>
   extract_dtypes (Some example_shard) = Inr [''date'' \<mapsto> Datetime64_ns, ''close'' \<mapsto> Float64] \<and>
   rows_to_dataframe warehouse_client 0
     \<lparr>wh_tables = [(example_shard, example_dates)],
      wh_jobs = [RowIterator ''daily_items_info_005930_KOSPI'']\<rparr> =
     (Inr (map (\<lambda>d. (d, ())) example_dates),
      \<lparr>wh_tables = [(example_shard, example_dates)],
       wh_jobs = [RowIterator ''daily_items_info_005930_KOSPI'']\<rparr>) \<and>
   distinct (map fst (map (\<lambda>d. (d, ())) example_dates)) \<and>
   fst (get_daily_info warehouse_client ''daily_items'' (''005930'', ''Samsung'', ''KOSPI'')
          (Some (2024, 1, 5)) None (start_state [(example_shard, example_dates)])) =
     Inr [((2024, 1, 5), ()), ((2024, 1, 6), ()), ((2024, 1, 7), ()),
          ((2024, 1, 8), ()), ((2024, 1, 9), ()), ((2024, 1, 10), ())]"
proof -
  let ?w1 = "\<lparr>wh_tables = [(example_shard, example_dates)], wh_jobs = []\<rparr>"
  let ?w2 = "\<lparr>wh_tables = [(example_shard, example_dates)],
              wh_jobs = [RowIterator ''daily_items_info_005930_KOSPI'']\<rparr>"
  let ?rows = "map (\<lambda>d. (d, ())) example_dates"
  have h1: "get_table warehouse_client (shard_table_name ''daily_items'' ''005930'' ''KOSPI'')
     (world (start_state [(example_shard, example_dates)])) = (Inr example_shard, ?w1)"
    by (simp add: warehouse_client_def wh_get_table_def wh_lookup_def start_state_def
          shard_table_name_def example_shard_def)
  have h2: "list_rows warehouse_client (Some example_shard) ?w1 = (Inr 0, ?w2)"
    by (simp add: warehouse_client_def wh_list_rows_def wh_submit_def example_shard_def)
  have h3: "extract_dtypes (Some example_shard) = Inr [''date'' \<mapsto> Datetime64_ns, ''close'' \<mapsto> Float64]"
    by (simp add: example_shard_def extract_dtypes_type_map_def)
  have h4: "[''date'' \<mapsto> Datetime64_ns, ''close'' \<mapsto> Float64] ''date'' \<noteq> None" by simp
  have h5: "rows_to_dataframe warehouse_client 0 ?w2 = (Inr ?rows, ?w2)"
    by (simp add: warehouse_client_def wh_rows_to_dataframe_def wh_lookup_def example_shard_def)
  have h6: "distinct (map fst ?rows)" by (simp add: example_dates_def)
  from get_daily_info_inclusive_slice [OF h1 h2 h3 h4 h5 h6, of "''Samsung''" "Some (2024, 1, 5)" None]
  have "fst (get_daily_info warehouse_client ''daily_items'' (''005930'', ''Samsung'', ''KOSPI'')
          (Some (2024, 1, 5)) None (start_state [(example_shard, example_dates)])) =
        Inr (filter (\<lambda>r. (2024, 1, 5) \<le> fst r) (sort_key fst ?rows))"
    by simp
  moreover have "filter (\<lambda>r. (2024, 1, 5) \<le> fst r) (sort_key fst ?rows) =
     [((2024, 1, 5), ()), ((2024, 1, 6), ()), ((2024, 1, 7), ()),
          ((2024, 1, 8), ()), ((2024, 1, 9), ()), ((2024, 1, 10), ())]"
    by (simp add: example_dates_def)
  ultimately show ?thesis using h1 h2 h3 h5 h6 by simp
qed

lemma save_info_conflict_at_submit_skips:
  assumes "extract_schema (df_dtypes df) = Inr schema'"
      and "get_table cl table_name (world s) = (Inr tbl, w1)"
      and "load_table_from_dataframe cl df tbl schema' wd w1 = (Inl Conflict, w2)"
  shows "save_info cl info_type table_name df wd s =
           (Inr None,
            s\<lparr>world := w2,
              calls := calls s @ [GetTable table_name, LoadTableFromDataframe df tbl schema' wd],
              logged := logged s @ [LogSkip (table_id tbl)]\<rparr>)"
  using assms by (simp add: save_info_def request_def logger_info_def)

text \<open>
  Claim C2 fails on the code. The handler \<open>except Conflict\<close> encloses the submission of
  the load job only. When the warehouse reports the conflict as the job's result is
  awaited, \<open>job.result()\<close> stands outside the handler: \<open>_save_info\<close> raises \<open>Conflict\<close>,
  logs nothing and does not return the skipped outcome. This is where a load with
  \<open>WRITE_EMPTY\<close> into a table that holds rows is refused, so the second of two equal loads
  ends in the exception.
\<close>

theorem save_info_conflict_at_result_raises:
  assumes "extract_schema (df_dtypes df) = Inr schema'"
      and "get_table cl table_name (world s) = (Inr tbl, w1)"
      and "load_table_from_dataframe cl df tbl schema' wd w1 = (Inr j, w2)"
      and "job_result cl j w2 = (Inl Conflict, w3)"
  shows "save_info cl info_type table_name df wd s =
           (Inl Conflict,
            s\<lparr>world := w3,
              calls := calls s @ [GetTable table_name, LoadTableFromDataframe df tbl schema' wd,
                                  JobResult j]\<rparr>)"
  using assms by (simp add: save_info_def request_def)

theorem save_info_conflict_at_result_raises_witness:
  "save_daily_item_info warehouse_client (''005930'', ''Samsung'', ''KOSPI'') example_batch WRITE_EMPTY
     (start_state []) = (Inr (Some example_shard), example_loaded) \<and>
   extract_schema (df_dtypes example_batch) = Inr (schema example_shard) \<and>
   get_table warehouse_client ''daily_items_info_005930_KOSPI'' (world example_loaded) =
     (Inr example_shard, world example_loaded) \<and>
   load_table_from_dataframe warehouse_client example_batch example_shard (schema example_shard)
     WRITE_EMPTY (world example_loaded) =
     (Inr 1, (world example_loaded)
               \<lparr>wh_jobs := wh_jobs (world example_loaded) @
                  [LoadJob ''daily_items_info_005930_KOSPI'' WRITE_EMPTY [(2024, 1, 1), (2024, 1, 2)]]\<rparr>) \<and>
   job_result warehouse_client 1
     ((world example_loaded)
        \<lparr>wh_jobs := wh_jobs (world example_loaded) @
           [LoadJob ''daily_items_info_005930_KOSPI'' WRITE_EMPTY [(2024, 1, 1), (2024, 1, 2)]]\<rparr>) =
     (Inl Conflict,
      (world example_loaded)
        \<lparr>wh_jobs := wh_jobs (world example_loaded) @
           [LoadJob ''daily_items_info_005930_KOSPI'' WRITE_EMPTY [(2024, 1, 1), (2024, 1, 2)]]\<rparr>) \<and>
   fst (save_daily_item_info warehouse_client (''005930'', ''Samsung'', ''KOSPI'') example_batch WRITE_EMPTY
          example_loaded) = Inl Conflict \<and>
   logged (snd (save_daily_item_info warehouse_client (''005930'', ''Samsung'', ''KOSPI'') example_batch
                  WRITE_EMPTY example_loaded)) = logged example_loaded"
proof -
  let ?w2 = "(world example_loaded)
        \<lparr>wh_jobs := wh_jobs (world example_loaded) @
           [LoadJob ''daily_items_info_005930_KOSPI'' WRITE_EMPTY [(2024, 1, 1), (2024, 1, 2)]]\<rparr>"
  have first: "save_daily_item_info warehouse_client (''005930'', ''Samsung'', ''KOSPI'') example_batch
                 WRITE_EMPTY (start_state []) = (Inr (Some example_shard), example_loaded)"
    by (simp add: save_daily_item_info_def save_daily_item_info_table_name_def save_info_def
          request_def logger_info_def warehouse_client_def wh_get_table_def wh_create_table_def
          wh_lookup_def wh_submit_def wh_job_result_def wh_store_def start_state_def
          example_batch_def example_shard_def example_loaded_def date_min_def date_max_def Let_def)
  have h1: "extract_schema (df_dtypes example_batch) = Inr (schema example_shard)"
    by (simp add: example_batch_def example_shard_def)
  have h2: "get_table warehouse_client ''daily_items_info_005930_KOSPI'' (world example_loaded) =
              (Inr example_shard, world example_loaded)"
    by (simp add: warehouse_client_def wh_get_table_def wh_lookup_def example_loaded_def example_shard_def)
  have h3: "load_table_from_dataframe warehouse_client example_batch example_shard (schema example_shard)
              WRITE_EMPTY (world example_loaded) = (Inr 1, ?w2)"
    by (simp add: warehouse_client_def wh_submit_def example_loaded_def example_shard_def example_batch_def)
  have h4: "job_result warehouse_client 1 ?w2 = (Inl Conflict, ?w2)"
    by (simp add: warehouse_client_def wh_job_result_def wh_lookup_def example_loaded_def example_shard_def)
  from save_info_conflict_at_result_raises [OF h1 h2 h3 h4, of "''daily_items''"]
  have "fst (save_daily_item_info warehouse_client (''005930'', ''Samsung'', ''KOSPI'') example_batch
               WRITE_EMPTY example_loaded) = Inl Conflict"
       "logged (snd (save_daily_item_info warehouse_client (''005930'', ''Samsung'', ''KOSPI'') example_batch
                  WRITE_EMPTY example_loaded)) = logged example_loaded"
    by (simp_all add: save_daily_item_info_def save_daily_item_info_table_name_def)
  with first h1 h2 h3 h4 show ?thesis by blast
qed


end
